theory Spec2Isabelle
  imports Complex_Main "HOL-Library.Word" "HOL-Library.Stream"
begin

section \<open>Exceptions\<close>

text \<open>
  Every Python exception that the modelled code can raise is a value of \<open>error\<close>.
  An operation that may raise after it has already changed the file system returns the
  pair of the raised exception (\<open>None\<close> when it returns normally) and the file system it
  leaves behind.
\<close>

datatype error =
    KeyError | FileNotFoundError | IsADirectoryError | NotADirectoryError
  | FileExistsError | BadZipFile | ValueError | TypeError | IndexError

section \<open>Paths and the file system\<close>

type_synonym path = string

text \<open>
  \<^verbatim>\<open>os.path.join(a, b)\<close> of posixpath: an absolute \<open>b\<close> replaces \<open>a\<close>; otherwise the
  separator is inserted unless \<open>a\<close> is empty or already ends with it.
\<close>

definition os_path_join :: "path \<Rightarrow> path \<Rightarrow> path" where
  "os_path_join a b =
     (if b \<noteq> [] \<and> hd b = CHR ''/'' then b
      else if a = [] \<or> last a = CHR ''/'' then a @ b
      else a @ ''/'' @ b)"

text \<open>\<^verbatim>\<open>os.path.basename(p)\<close>: what follows the last separator.\<close>

definition os_path_basename :: "path \<Rightarrow> path" where
  "os_path_basename p = rev (takeWhile (\<lambda>c. c \<noteq> CHR ''/'') (rev p))"

text \<open>
  \<^verbatim>\<open>os.path.dirname(p)\<close>: what precedes the last separator, without its trailing
  separators unless it consists of separators only.
\<close>

definition os_path_dirname :: "path \<Rightarrow> path" where
  "os_path_dirname p =
     (let head = rev (dropWhile (\<lambda>c. c \<noteq> CHR ''/'') (rev p))
      in if head \<noteq> [] \<and> \<not> list_all (\<lambda>c. c = CHR ''/'') head
         then rev (dropWhile (\<lambda>c. c = CHR ''/'') (rev head))
         else head)"

text \<open>
  A regular file holds either a zip archive, given by its members in the order they were
  written (name and content; a directory entry is a member whose name ends with the
  separator), or any other bytes. A path names at most one node; paths are compared as
  strings, the directories above a path are not tracked, and there are no symbolic links
  and no permissions.
\<close>

datatype content = Raw "8 word list" | Zip "(string \<times> content) list"

datatype node = File content | Dir

type_synonym filesystem = "path \<rightharpoonup> node"

type_synonym io = "error option \<times> filesystem"

definition os_path_exists :: "filesystem \<Rightarrow> path \<Rightarrow> bool" where
  "os_path_exists fs p = (fs p \<noteq> None)"

definition os_path_isfile :: "filesystem \<Rightarrow> path \<Rightarrow> bool" where
  "os_path_isfile fs p = (case fs p of Some (File _) \<Rightarrow> True | _ \<Rightarrow> False)"

definition os_path_isdir :: "filesystem \<Rightarrow> path \<Rightarrow> bool" where
  "os_path_isdir fs p = (fs p = Some Dir)"

definition os_remove :: "filesystem \<Rightarrow> path \<Rightarrow> io" where
  "os_remove fs p =
     (case fs p of
        None \<Rightarrow> (Some FileNotFoundError, fs)
      | Some Dir \<Rightarrow> (Some IsADirectoryError, fs)
      | Some (File _) \<Rightarrow> (None, fs(p := None)))"

text \<open>
  \<^verbatim>\<open>os.rename(src, dst)\<close>: a regular file replaces a regular file at \<open>dst\<close> silently and
  is refused by a directory there. Renaming a path onto itself changes nothing.
\<close>

definition os_rename :: "filesystem \<Rightarrow> path \<Rightarrow> path \<Rightarrow> io" where
  "os_rename fs src dst =
     (case fs src of
        None \<Rightarrow> (Some FileNotFoundError, fs)
      | Some (File c) \<Rightarrow>
          (case fs dst of
             Some Dir \<Rightarrow> (Some IsADirectoryError, fs)
           | _ \<Rightarrow> (None, (fs(src := None))(dst \<mapsto> File c)))
      | Some Dir \<Rightarrow>
          (case fs dst of
             Some (File _) \<Rightarrow> (Some NotADirectoryError, fs)
           | _ \<Rightarrow> (None, (fs(src := None))(dst \<mapsto> Dir))))"

text \<open>Sequencing: the second step runs on the file system of the first unless that raised.\<close>

definition and_then :: "io \<Rightarrow> (filesystem \<Rightarrow> io) \<Rightarrow> io" where
  "and_then r f = (case r of (None, fs) \<Rightarrow> f fs | (Some e, fs) \<Rightarrow> (Some e, fs))"

section \<open>The zipfile library\<close>

text \<open>
  \<^verbatim>\<open>ZipFile(file, 'w')\<close> creates or truncates the file at once. \<^verbatim>\<open>ZipFile.write\<close> stats the
  source first (so a missing source raises before anything is added), appends a directory
  entry for a directory and the file's content otherwise. Leaving the \<^verbatim>\<open>with\<close> block,
  normally or by an exception, closes the archive, which writes the central directory:
  the file then is a well-formed archive of the members added so far, also when there
  are none. The handle keeps the members while the archive is open; what the file holds
  in between is not observed unless the archive is one of its own sources, and is shown
  as empty.

  The directory in which the archive is created is taken to be there. When it is not,
  \<^verbatim>\<open>ZipFile(file, 'w')\<close> raises \<^verbatim>\<open>FileNotFoundError\<close> and creates nothing, which
  \<open>ZipFile_open_w\<close> does not show. A property of creating an archive is therefore stated
  for file systems that hold this directory, \<open>os_path_dirname\<close> of the archive path,
  unless a regular file the property assumes in that directory already says so.
\<close>

record ZipFile =
  zf_path :: path
  zf_members :: "(string \<times> content) list"

definition ZipFile_open_w :: "filesystem \<Rightarrow> path \<Rightarrow> (error + ZipFile) \<times> filesystem" where
  "ZipFile_open_w fs file =
     (case fs file of
        Some Dir \<Rightarrow> (Inl IsADirectoryError, fs)
      | _ \<Rightarrow> (Inr \<lparr>zf_path = file, zf_members = []\<rparr>, fs(file \<mapsto> File (Raw []))))"

text \<open>
  The archive name is always an \<^verbatim>\<open>os.path.basename\<close> result here, which holds no
  separator; on such a name the library's normalisation only turns the empty name into
  \<^verbatim>\<open>.\<close>.
\<close>

definition zip_member :: "string \<Rightarrow> node \<Rightarrow> string \<times> content" where
  "zip_member arcname n =
     (let a = (if arcname = [] then ''.'' else arcname)
      in case n of File c \<Rightarrow> (a, c) | Dir \<Rightarrow> (a @ ''/'', Raw []))"

definition ZipFile_write :: "filesystem \<Rightarrow> ZipFile \<Rightarrow> path \<Rightarrow> string \<Rightarrow> error + ZipFile" where
  "ZipFile_write fs z filename arcname =
     (case fs filename of
        None \<Rightarrow> Inl FileNotFoundError
      | Some n \<Rightarrow> Inr (z\<lparr>zf_members := zf_members z @ [zip_member arcname n]\<rparr>))"

definition ZipFile_close :: "filesystem \<Rightarrow> ZipFile \<Rightarrow> filesystem" where
  "ZipFile_close fs z = fs(zf_path z \<mapsto> File (Zip (zf_members z)))"

definition ZipFile_open_r :: "filesystem \<Rightarrow> path \<Rightarrow> error + ZipFile" where
  "ZipFile_open_r fs file =
     (case fs file of
        None \<Rightarrow> Inl FileNotFoundError
      | Some Dir \<Rightarrow> Inl IsADirectoryError
      | Some (File (Raw _)) \<Rightarrow> Inl BadZipFile
      | Some (File (Zip ms)) \<Rightarrow> Inr \<lparr>zf_path = file, zf_members = ms\<rparr>)"

text \<open>
  Extraction drops the empty, \<^verbatim>\<open>.\<close> and \<^verbatim>\<open>..\<close> components of a member name and joins the
  rest under the target directory.
\<close>

fun split_sep :: "string \<Rightarrow> string list" where
  "split_sep [] = [[]]"
| "split_sep (c # cs) =
     (if c = CHR ''/'' then [] # split_sep cs
      else (case split_sep cs of [] \<Rightarrow> [[c]] | w # ws \<Rightarrow> (c # w) # ws))"

fun join_sep :: "string list \<Rightarrow> string" where
  "join_sep [] = []"
| "join_sep [w] = w"
| "join_sep (w # ws) = w @ ''/'' @ join_sep ws"

definition sanitize :: "string \<Rightarrow> string" where
  "sanitize name =
     join_sep (filter (\<lambda>x. x \<noteq> [] \<and> x \<noteq> ''.'' \<and> x \<noteq> ''..'') (split_sep name))"

definition is_dir_name :: "string \<Rightarrow> bool" where
  "is_dir_name name = (name \<noteq> [] \<and> last name = CHR ''/'')"

text \<open>
  One member: a directory entry makes the directory unless it is there; a file entry is
  written over whatever regular file is at the target and is refused by a directory.
\<close>

definition extract_member :: "filesystem \<Rightarrow> path \<Rightarrow> string \<Rightarrow> content \<Rightarrow> io" where
  "extract_member fs dir name c =
     (let targetpath = os_path_join dir (sanitize name) in
      if is_dir_name name then
        (if os_path_isdir fs targetpath then (None, fs)
         else if os_path_exists fs targetpath then (Some FileExistsError, fs)
         else (None, fs(targetpath \<mapsto> Dir)))
      else
        (if os_path_isdir fs targetpath then (Some IsADirectoryError, fs)
         else (None, fs(targetpath \<mapsto> File c))))"

text \<open>
  \<^verbatim>\<open>extractall\<close> goes through the names in archive order and extracts, for each name, the
  entry the archive's name table holds for it: the last member written under that name.
\<close>

fun extract_names :: "filesystem \<Rightarrow> path \<Rightarrow> (string \<times> content) list \<Rightarrow> string list \<Rightarrow> io" where
  "extract_names fs dir ms [] = (None, fs)"
| "extract_names fs dir ms (name # names) =
     (case map_of (rev ms) name of
        None \<Rightarrow> (Some KeyError, fs)
      | Some c \<Rightarrow> and_then (extract_member fs dir name c) (\<lambda>fs'. extract_names fs' dir ms names))"

definition ZipFile_extractall :: "filesystem \<Rightarrow> ZipFile \<Rightarrow> path \<Rightarrow> io" where
  "ZipFile_extractall fs z dir = extract_names fs dir (zf_members z) (map fst (zf_members z))"

section \<open>StateManager\<close>

text \<open>
  The file structure manager is a collaborator of the state manager, which only calls
  its three path queries; their results are the fields of a record.
\<close>

record FileStructManager =
  weights_dir :: path
  weights_file :: path
  optimizer_state_file :: path

record StateManager =
  file_struct_manager :: FileStructManager
  files :: "string \<rightharpoonup> path"
  preffix :: "string option"

definition construct_result_file :: "StateManager \<Rightarrow> path" where
  "construct_result_file sm =
     (let data_dir = weights_dir (file_struct_manager sm)
      in os_path_join data_dir
           ((case preffix sm of Some p \<Rightarrow> p @ ''_'' | None \<Rightarrow> '''') @ ''state.zip''))"

definition rm_file :: "filesystem \<Rightarrow> path \<Rightarrow> io" where
  "rm_file fs file =
     (if os_path_exists fs file \<and> os_path_isfile fs file then os_remove fs file
      else (None, fs))"

definition rename_file :: "filesystem \<Rightarrow> path \<Rightarrow> io" where
  "rename_file fs file =
     (let target = file @ ''.old'' in
      and_then (rm_file fs target) (\<lambda>fs1.
        if os_path_exists fs1 file \<and> os_path_isfile fs1 file then os_rename fs1 file target
        else (None, fs1)))"

text \<open>
  \<^verbatim>\<open>unpack\<close> assigns both entries of the files dictionary before it touches the archive;
  the state manager it returns is the object as the call leaves it, raised or not.
\<close>

definition unpack :: "StateManager \<Rightarrow> filesystem \<Rightarrow> error option \<times> StateManager \<times> filesystem" where
  "unpack sm fs =
     (let fsm = file_struct_manager sm;
          sm1 = sm\<lparr>files := (files sm)(''weights_file'' \<mapsto> os_path_join (weights_dir fsm) ''weights.pth'')\<rparr>;
          sm2 = sm1\<lparr>files := (files sm1)(''state_file'' \<mapsto> os_path_join (weights_dir fsm) ''state.pth'')\<rparr>;
          result_file = construct_result_file sm2
      in case ZipFile_open_r fs result_file of
           Inl e \<Rightarrow> (Some e, sm2, fs)
         | Inr zipfile \<Rightarrow>
             (case ZipFile_extractall fs zipfile (weights_dir fsm) of
                (r, fs') \<Rightarrow> (r, sm2, fs')))"

text \<open>
  \<^verbatim>\<open>clear_files\<close> subscripts the dictionary, which raises \<^verbatim>\<open>KeyError\<close> for an absent key,
  before each removal.
\<close>

definition clear_files :: "StateManager \<Rightarrow> filesystem \<Rightarrow> error option \<times> StateManager \<times> filesystem" where
  "clear_files sm fs =
     (case files sm ''weights_file'' of
        None \<Rightarrow> (Some KeyError, sm, fs)
      | Some w_file \<Rightarrow>
          (case rm_file fs w_file of
             (Some e, fs1) \<Rightarrow> (Some e, sm, fs1)
           | (None, fs1) \<Rightarrow>
               (case files sm ''state_file'' of
                  None \<Rightarrow> (Some KeyError, sm, fs1)
                | Some s_file \<Rightarrow>
                    (case rm_file fs1 s_file of
                       (Some e, fs2) \<Rightarrow> (Some e, sm, fs2)
                     | (None, fs2) \<Rightarrow> (None, sm\<lparr>files := Map.empty\<rparr>, fs2)))))"

definition pack :: "StateManager \<Rightarrow> filesystem \<Rightarrow> io" where
  "pack sm fs =
     (let w_file = weights_file (file_struct_manager sm);
          s_file = optimizer_state_file (file_struct_manager sm);
          result_file = construct_result_file sm
      in and_then (rename_file fs result_file) (\<lambda>fs1.
           case ZipFile_open_w fs1 result_file of
             (Inl e, fs2) \<Rightarrow> (Some e, fs2)
           | (Inr zipfile, fs2) \<Rightarrow>
               (case ZipFile_write fs2 zipfile w_file (os_path_basename w_file) of
                  Inl e \<Rightarrow> (Some e, ZipFile_close fs2 zipfile)
                | Inr zipfile1 \<Rightarrow>
                    (case ZipFile_write fs2 zipfile1 s_file (os_path_basename s_file) of
                       Inl e \<Rightarrow> (Some e, ZipFile_close fs2 zipfile1)
                     | Inr zipfile2 \<Rightarrow>
                         and_then (None, ZipFile_close fs2 zipfile2) (\<lambda>fs3.
                           and_then (rm_file fs3 w_file) (\<lambda>fs4.
                             rm_file fs4 s_file))))))"

definition get_files :: "StateManager \<Rightarrow> (string \<rightharpoonup> path)" where
  "get_files sm = files sm"

text \<open>
  The constructor. When it packs, the prefix is \<^verbatim>\<open>prev_start\<close>; an exception of \<^verbatim>\<open>pack\<close>
  leaves the constructor, so no object is made.
\<close>

definition StateManager_init ::
  "FileStructManager \<Rightarrow> string option \<Rightarrow> filesystem \<Rightarrow> (error + StateManager) \<times> filesystem" where
  "StateManager_init fsm p fs =
     (let sm = \<lparr>file_struct_manager = fsm, files = Map.empty, preffix = None\<rparr>;
          w_file = weights_file fsm;
          s_file = optimizer_state_file fsm
      in if os_path_exists fs w_file \<and> os_path_exists fs s_file
            \<and> os_path_isfile fs w_file \<and> os_path_isfile fs s_file
         then (case pack (sm\<lparr>preffix := Some ''prev_start''\<rparr>) fs of
                 (Some e, fs') \<Rightarrow> (Inl e, fs')
               | (None, fs') \<Rightarrow> (Inr (sm\<lparr>preffix := p\<rparr>), fs'))
         else (Inr (sm\<lparr>preffix := p\<rparr>), fs))"

section \<open>Random numbers\<close>

text \<open>
  A generator is the stream of its raw outputs; each draw consumes one. The draw below
  \<open>n\<close> is the residue of the raw output modulo \<open>n\<close>, so every value of the range is the
  image of exactly one residue. \<^verbatim>\<open>random.randint(a, b)\<close> includes both ends and raises
  \<^verbatim>\<open>ValueError\<close> on an empty range; \<^verbatim>\<open>np.random.randint(low, high, size)\<close> excludes
  \<open>high\<close> and draws from numpy's own generator. It raises \<^verbatim>\<open>ValueError\<close> for a negative
  size; for size 0 it returns the empty array without looking at the bounds and without
  drawing; otherwise it raises \<^verbatim>\<open>ValueError\<close> when \<open>high \<le> low\<close>.
\<close>

type_synonym rng = "nat stream"

definition randint :: "int \<Rightarrow> int \<Rightarrow> rng \<Rightarrow> error + int \<times> rng" where
  "randint a b g =
     (if b < a then Inl ValueError
      else Inr (a + int (shd g mod nat (b - a + 1)), stl g))"

definition np_random_randint :: "int \<Rightarrow> int \<Rightarrow> int \<Rightarrow> rng \<Rightarrow> error + int list \<times> rng" where
  "np_random_randint low high n g =
     (if n < 0 then Inl ValueError
      else if n = 0 then Inr ([], g)
      else if high \<le> low then Inl ValueError
      else Inr (map (\<lambda>u. low + int (u mod nat (high - low))) (stake (nat n) g),
                sdrop (nat n) g))"

section \<open>Arrays\<close>

text \<open>
  An array is its shape and the element at each index vector; only index vectors inside
  the shape are meaningful.
\<close>

record 'a ndarray =
  shape :: "nat list"
  elems :: "nat list \<Rightarrow> 'a"

definition ndarray_size :: "'a ndarray \<Rightarrow> nat" where
  "ndarray_size a = prod_list (shape a)"

text \<open>
  The start and the stop of the slice \<^verbatim>\<open>a:b\<close> on an axis of length \<open>n\<close>: a negative bound
  counts from the end, and both are clipped to the axis.
\<close>

definition slice_bound :: "nat \<Rightarrow> int \<Rightarrow> nat" where
  "slice_bound n i =
     (if i < 0 then nat (max 0 (i + int n)) else nat (min i (int n)))"

text \<open>\<^verbatim>\<open>data[y1: y2, x1: x2, :]\<close> on a three-dimensional array.\<close>

definition slice_hw :: "'a ndarray \<Rightarrow> int \<Rightarrow> int \<Rightarrow> int \<Rightarrow> int \<Rightarrow> 'a ndarray" where
  "slice_hw data y1 y2 x1 x2 =
     (let h = shape data ! 0; w = shape data ! 1; c = shape data ! 2;
          ys = slice_bound h y1; ye = slice_bound h y2;
          xs = slice_bound w x1; xe = slice_bound w x2
      in \<lparr>shape = [ye - ys, xe - xs, c],
          elems = (\<lambda>idx. elems data (map2 (+) [ys, xs, 0] idx))\<rparr>)"

text \<open>
  \<^verbatim>\<open>out[coords] = v\<close> where \<open>coords\<close> is a list with one index array per axis, all of one
  length. How numpy reads such a list depends on its release:
  \<^item> before 1.23 as a tuple of index arrays (\<open>Per_axis\<close>): the \<open>j\<close>-th entries of the
    arrays together are one index vector, and the elements at these vectors are
    assigned;
  \<^item> from 1.23 on as one two-dimensional index array on the first axis (\<open>First_axis\<close>):
    every entry of every array is an index on axis 0, and the whole plane at each of
    them is assigned.
  Each index must lie in \<open>[-n, n)\<close> for its axis of length \<open>n\<close>, a negative one counting
  from the end; otherwise nothing is assigned and \<^verbatim>\<open>IndexError\<close> is raised.
\<close>

datatype list_indexing = Per_axis | First_axis

definition index_ok :: "nat \<Rightarrow> int \<Rightarrow> bool" where
  "index_ok n i = (- int n \<le> i \<and> i < int n)"

definition norm_index :: "nat \<Rightarrow> int \<Rightarrow> nat" where
  "norm_index n i = (if i < 0 then nat (i + int n) else nat i)"

definition setitem ::
  "list_indexing \<Rightarrow> 'a ndarray \<Rightarrow> int list list \<Rightarrow> 'a \<Rightarrow> error + 'a ndarray" where
  "setitem numpy out coords v =
     (if coords = [] \<or> length coords \<noteq> length (shape out) then Inl IndexError
      else
        (case numpy of
           Per_axis \<Rightarrow>
             (let ps = transpose coords in
              if list_all (\<lambda>p. list_all2 index_ok (shape out) p) ps
              then Inr (out\<lparr>elems := (\<lambda>idx.
                      if idx \<in> set (map (map2 norm_index (shape out)) ps) then v
                      else elems out idx)\<rparr>)
              else Inl IndexError)
         | First_axis \<Rightarrow>
             (let n = hd (shape out); xs = concat coords in
              if list_all (index_ok n) xs
              then Inr (out\<lparr>elems := (\<lambda>idx.
                      if idx \<noteq> [] \<and> hd idx \<in> set (map (norm_index n) xs) then v
                      else elems out idx)\<rparr>)
              else Inl IndexError)))"

section \<open>Augmentations\<close>

text \<open>
  Configuration values: integers, floats (each finite float is a rational) and lists.
  A configuration maps an augmentation name to its fragment, a fragment maps a
  parameter name to its value; subscripting with an absent key raises \<^verbatim>\<open>KeyError\<close>.
\<close>

datatype pyval = PInt int | PFloat rat | PList "pyval list"

type_synonym fragment = "string \<rightharpoonup> pyval"

type_synonym config = "string \<rightharpoonup> fragment"

definition bind_err :: "error + 'a \<Rightarrow> ('a \<Rightarrow> error + 'b) \<Rightarrow> error + 'b" where
  "bind_err r f = (case r of Inl e \<Rightarrow> Inl e | Inr x \<Rightarrow> f x)"

definition getitem :: "('k \<rightharpoonup> 'v) \<Rightarrow> 'k \<Rightarrow> error + 'v" where
  "getitem d k = (case d k of None \<Rightarrow> Inl KeyError | Some v \<Rightarrow> Inr v)"

datatype resize_fnc = resize_to_defined | resize_by_min_edge

text \<open>The private attributes each subclass sets in its constructor.\<close>

datatype variant =
    HorizontalFlip
  | VerticalFlip
  | GaussNoise (gn_mean: pyval) (gn_var: pyval) (gn_interval: pyval)
  | SNPNoise (snp_s_vs_p: pyval) (snp_amount: pyval)
  | Blur (blur_ksize: pyval)
  | Resize (rs_size: pyval) (rs_resize_fnc: resize_fnc)
  | CentralCrop (cc_size: pyval) (cc_width: pyval) (cc_height: pyval)
  | RandomCrop (rc_size: pyval) (rc_width: pyval) (rc_height: pyval)
  | RandomRotate (rr_interval: pyval)
  | RandomBrightness (rb_interval: pyval)
  | RandomContrast (rcn_interval: pyval)
  | Normalize
  | ToPyTorch

text \<open>
  The base class holds the name and the percentage; an object of one of the thirteen
  subclasses adds that subclass's attributes.
\<close>

record Augmentation =
  aug_name :: string
  percentage :: pyval

record Transform = Augmentation +
  variant :: variant

definition with_attrs :: "Augmentation \<Rightarrow> variant \<Rightarrow> Transform" where
  "with_attrs self v = \<lparr>aug_name = aug_name self, percentage = percentage self, variant = v\<rparr>"

definition get_config_path :: "config \<Rightarrow> string \<Rightarrow> error + fragment" where
  "get_config_path config name = getitem config name"

text \<open>The base constructor: the name and \<^verbatim>\<open>config[name]['percentage']\<close>.\<close>

definition Augmentation_init :: "config \<Rightarrow> string \<Rightarrow> error + Augmentation" where
  "Augmentation_init config name =
     bind_err (get_config_path config name) (\<lambda>frag.
     bind_err (getitem frag ''percentage'') (\<lambda>p.
       Inr \<lparr>aug_name = name, percentage = p\<rparr>))"

text \<open>Reading one parameter of the augmentation's own fragment.\<close>

definition param :: "config \<Rightarrow> 'x Augmentation_scheme \<Rightarrow> string \<Rightarrow> error + pyval" where
  "param config self k = bind_err (get_config_path config (aug_name self)) (\<lambda>frag. getitem frag k)"

definition is_pair :: "pyval \<Rightarrow> bool" where
  "is_pair v = (case v of PList xs \<Rightarrow> length xs = 2 | _ \<Rightarrow> False)"

definition HorizontalFlip_init :: "config \<Rightarrow> error + Transform" where
  "HorizontalFlip_init config =
     bind_err (Augmentation_init config ''hflip'') (\<lambda>self.
       Inr (with_attrs self HorizontalFlip))"

definition VerticalFlip_init :: "config \<Rightarrow> error + Transform" where
  "VerticalFlip_init config =
     bind_err (Augmentation_init config ''vflip'') (\<lambda>self.
       Inr (with_attrs self VerticalFlip))"

definition GaussNoise_init :: "config \<Rightarrow> error + Transform" where
  "GaussNoise_init config =
     bind_err (Augmentation_init config ''gauss_noise'') (\<lambda>self.
     bind_err (param config self ''mean'') (\<lambda>mean.
     bind_err (param config self ''var'') (\<lambda>var.
     bind_err (param config self ''interval'') (\<lambda>interval.
       Inr (with_attrs self (GaussNoise mean var interval))))))"

definition SNPNoise_init :: "config \<Rightarrow> error + Transform" where
  "SNPNoise_init config =
     bind_err (Augmentation_init config ''snp_noise'') (\<lambda>self.
     bind_err (param config self ''s_vs_p'') (\<lambda>s_vs_p.
     bind_err (param config self ''amount'') (\<lambda>amount.
       Inr (with_attrs self (SNPNoise s_vs_p amount)))))"

definition Blur_init :: "config \<Rightarrow> error + Transform" where
  "Blur_init config =
     bind_err (Augmentation_init config ''blur'') (\<lambda>self.
     bind_err (param config self ''ksize'') (\<lambda>ksize.
       Inr (with_attrs self (Blur ksize))))"

definition Resize_init :: "config \<Rightarrow> error + Transform" where
  "Resize_init config =
     bind_err (Augmentation_init config ''resize'') (\<lambda>self.
     bind_err (param config self ''size'') (\<lambda>size'.
       Inr ((with_attrs self
               (Resize size' (if is_pair size' then resize_to_defined else resize_by_min_edge)))
            \<lparr>percentage := PInt 100\<rparr>)))"

definition CentralCrop_init :: "config \<Rightarrow> error + Transform" where
  "CentralCrop_init config =
     bind_err (Augmentation_init config ''ccrop'') (\<lambda>self.
     bind_err (param config self ''size'') (\<lambda>size'.
       Inr (with_attrs self
              (case size' of
                 PList [width, height] \<Rightarrow> CentralCrop size' width height
               | _ \<Rightarrow> CentralCrop size' size' size'))))"

definition RandomCrop_init :: "config \<Rightarrow> error + Transform" where
  "RandomCrop_init config =
     bind_err (Augmentation_init config ''rcrop'') (\<lambda>self.
     bind_err (param config self ''size'') (\<lambda>size'.
       Inr (with_attrs self
              (case size' of
                 PList [width, height] \<Rightarrow> RandomCrop size' width height
               | _ \<Rightarrow> RandomCrop size' size' size'))))"

definition RandomRotate_init :: "config \<Rightarrow> error + Transform" where
  "RandomRotate_init config =
     bind_err (Augmentation_init config ''rrotate'') (\<lambda>self.
     bind_err (param config self ''interval'') (\<lambda>interval.
       Inr (with_attrs self (RandomRotate interval))))"

definition RandomBrightness_init :: "config \<Rightarrow> error + Transform" where
  "RandomBrightness_init config =
     bind_err (Augmentation_init config ''rbrightness'') (\<lambda>self.
     bind_err (param config self ''interval'') (\<lambda>interval.
       Inr (with_attrs self (RandomBrightness interval))))"

definition RandomContrast_init :: "config \<Rightarrow> error + Transform" where
  "RandomContrast_init config =
     bind_err (Augmentation_init config ''rcontrast'') (\<lambda>self.
     bind_err (param config self ''interval'') (\<lambda>interval.
       Inr (with_attrs self (RandomContrast interval))))"

definition Normalize_init :: "config \<Rightarrow> error + Transform" where
  "Normalize_init config =
     bind_err (Augmentation_init config ''normalize'') (\<lambda>self.
       Inr ((with_attrs self Normalize)\<lparr>percentage := PInt 100\<rparr>))"

definition ToPyTorch_init :: "config \<Rightarrow> error + Transform" where
  "ToPyTorch_init config =
     bind_err (Augmentation_init config ''to_pytorch'') (\<lambda>self.
       Inr ((with_attrs self ToPyTorch)\<lparr>percentage := PInt 100\<rparr>))"

definition augmentations_dict :: "string \<rightharpoonup> (config \<Rightarrow> error + Transform)" where
  "augmentations_dict = map_of
     [(''hflip'', HorizontalFlip_init),
      (''vflip'', VerticalFlip_init),
      (''gauss_noise'', GaussNoise_init),
      (''snp_noise'', SNPNoise_init),
      (''blur'', Blur_init),
      (''resize'', Resize_init),
      (''ccrop'', CentralCrop_init),
      (''rcrop'', RandomCrop_init),
      (''rrotate'', RandomRotate_init),
      (''to_pytorch'', ToPyTorch_init),
      (''normalize'', Normalize_init),
      (''rbrightness'', RandomBrightness_init),
      (''rcontrast'', RandomContrast_init)]"

definition get_percetage :: "'x Augmentation_scheme \<Rightarrow> pyval" where
  "get_percetage self = percentage self"

definition get_name :: "'x Augmentation_scheme \<Rightarrow> string" where
  "get_name self = aug_name self"

definition internal_get_config :: "Transform \<Rightarrow> fragment" where
  "internal_get_config self =
     (case variant self of
        HorizontalFlip \<Rightarrow> Map.empty
      | VerticalFlip \<Rightarrow> Map.empty
      | GaussNoise mean var interval \<Rightarrow> [''mean'' \<mapsto> mean, ''var'' \<mapsto> var, ''interval'' \<mapsto> interval]
      | SNPNoise s_vs_p amount \<Rightarrow> [''s_vs_p'' \<mapsto> s_vs_p, ''amount'' \<mapsto> amount]
      | Blur ksize \<Rightarrow> [''ksize'' \<mapsto> ksize]
      | Resize size' _ \<Rightarrow> [''size'' \<mapsto> size']
      | CentralCrop size' _ _ \<Rightarrow> [''size'' \<mapsto> size']
      | RandomCrop size' _ _ \<Rightarrow> [''size'' \<mapsto> size']
      | RandomRotate interval \<Rightarrow> [''interval'' \<mapsto> interval]
      | RandomBrightness interval \<Rightarrow> [''interval'' \<mapsto> interval]
      | RandomContrast interval \<Rightarrow> [''interval'' \<mapsto> interval]
      | Normalize \<Rightarrow> Map.empty
      | ToPyTorch \<Rightarrow> Map.empty)"

text \<open>\<^verbatim>\<open>dict.update\<close>: the entries of the second dictionary win.\<close>

definition get_config :: "Transform \<Rightarrow> config" where
  "get_config self =
     (let internal_config = [''percentage'' \<mapsto> get_percetage self] ++ internal_get_config self
      in [get_name self \<mapsto> internal_config])"



text \<open>
  \<^verbatim>\<open>RandomCrop.process\<close>, given the object's width and height. The shape must unpack into
  three values. The horizontal offset is drawn before the vertical one, and an axis on
  which the image is not larger than the requested size draws nothing. A width or height
  that is not an integer ends in an exception (at the comparison for a list, at the draw
  or at the slice for a float); which one is not distinguished.
\<close>

definition RandomCrop_offsets ::
  "int \<Rightarrow> int \<Rightarrow> nat \<Rightarrow> nat \<Rightarrow> rng \<Rightarrow> error + (int \<times> int) \<times> rng" where
  "RandomCrop_offsets width height h w g =
     bind_err (if int w > width then randint 0 (int w - width) g else Inr (0, g)) (\<lambda>(dx, g1).
     bind_err (if int h > height then randint 0 (int h - height) g1 else Inr (0, g1)) (\<lambda>(dy, g2).
       Inr ((dx, dy), g2)))"

definition RandomCrop_process ::
  "pyval \<Rightarrow> pyval \<Rightarrow> 'a ndarray \<Rightarrow> rng \<Rightarrow> error + 'a ndarray \<times> rng" where
  "RandomCrop_process width height data g =
     (case shape data of
        [h, w, c] \<Rightarrow>
          (case (width, height) of
             (PInt width', PInt height') \<Rightarrow>
               bind_err (RandomCrop_offsets width' height' h w g) (\<lambda>((dx, dy), g').
                 let y1 = dy; y2 = dy + height';
                     x1 = dx; x2 = dx + width'
                 in Inr (slice_hw data y1 y2 x1 x2, g'))
           | _ \<Rightarrow> Inl TypeError)
      | _ \<Rightarrow> Inl ValueError)"

text \<open>
  \<^verbatim>\<open>SNPNoise.process\<close>, given how numpy reads a list of index arrays and the object's
  ratio and amount as numbers. The list
  comprehension draws one index array per axis, in axis order, each from
  \<^verbatim>\<open>np.random.randint(0, i - 1, n)\<close> for the axis length \<open>i\<close>. The number of coordinates
  is a ceiling of a product, taken here over the rationals.
\<close>

fun draw_coords :: "nat list \<Rightarrow> int \<Rightarrow> rng \<Rightarrow> error + int list list \<times> rng" where
  "draw_coords [] n g = Inr ([], g)"
| "draw_coords (i # is) n g =
     bind_err (np_random_randint 0 (int i - 1) n g) (\<lambda>(c, g1).
     bind_err (draw_coords is n g1) (\<lambda>(cs, g2).
       Inr (c # cs, g2)))"

definition SNPNoise_process ::
  "list_indexing \<Rightarrow> rat \<Rightarrow> rat \<Rightarrow> ('a::{zero,numeral}) ndarray \<Rightarrow> rng
     \<Rightarrow> error + 'a ndarray \<times> rng" where
  "SNPNoise_process numpy s_vs_p amount data g =
     (let out = data;
          num_salt = \<lceil>amount * of_nat (ndarray_size data) * s_vs_p\<rceil>
      in bind_err (draw_coords (shape data) num_salt g) (\<lambda>(coords, g1).
         bind_err (setitem numpy out coords 255) (\<lambda>out1.
           let num_pepper = \<lceil>amount * of_nat (ndarray_size data) * (1 - s_vs_p)\<rceil>
           in bind_err (draw_coords (shape data) num_pepper g1) (\<lambda>(coords', g2).
              bind_err (setitem numpy out1 coords' 0) (\<lambda>out2.
                Inr (out2, g2))))))"

section \<open>Assumptions on the surroundings, and example inputs\<close>

text \<open>
  \<^verbatim>\<open>unpack\<close> takes the weights file and the optimizer state file to be \<^verbatim>\<open>weights.pth\<close> and
  \<^verbatim>\<open>state.pth\<close> in the weights directory. A file structure manager whose queries agree
  with that has the canonical layout.
\<close>

definition canonical_layout :: "FileStructManager \<Rightarrow> bool" where
  "canonical_layout fsm \<longleftrightarrow>
     weights_file fsm = os_path_join (weights_dir fsm) ''weights.pth'' \<and>
     optimizer_state_file fsm = os_path_join (weights_dir fsm) ''state.pth''"

text \<open>A checkpoint directory \<^verbatim>\<open>ckpt\<close>, a state manager without prefix, and three file systems.\<close>

abbreviation ex_fsm :: FileStructManager where
  "ex_fsm \<equiv> \<lparr>weights_dir = ''ckpt'', weights_file = ''ckpt/weights.pth'',
              optimizer_state_file = ''ckpt/state.pth''\<rparr>"

abbreviation ex_sm :: StateManager where
  "ex_sm \<equiv> \<lparr>file_struct_manager = ex_fsm, files = Map.empty, preffix = None\<rparr>"

abbreviation ex_fs_both :: filesystem where
  "ex_fs_both \<equiv> [''ckpt'' \<mapsto> Dir,
                  ''ckpt/weights.pth'' \<mapsto> File (Raw [1, 2]),
                  ''ckpt/state.pth'' \<mapsto> File (Raw [3])]"

abbreviation ex_fs_archived :: filesystem where
  "ex_fs_archived \<equiv> [''ckpt'' \<mapsto> Dir,
                  ''ckpt/state.zip'' \<mapsto> File (Zip [(''weights.pth'', Raw [9])]),
                  ''ckpt/state.zip.old'' \<mapsto> File (Raw [7]),
                  ''ckpt/weights.pth'' \<mapsto> File (Raw [1, 2]),
                  ''ckpt/state.pth'' \<mapsto> File (Raw [3])]"

abbreviation ex_fs_no_state :: filesystem where
  "ex_fs_no_state \<equiv> [''ckpt'' \<mapsto> Dir, ''ckpt/weights.pth'' \<mapsto> File (Raw [1, 2])]"

text \<open>Two configurations and the objects their constructors make.\<close>

abbreviation ex_cfg_resize :: config where
  "ex_cfg_resize \<equiv> [''resize'' \<mapsto> [''percentage'' \<mapsto> PInt 50, ''size'' \<mapsto> PInt 64]]"

abbreviation ex_resize :: Transform where
  "ex_resize \<equiv> \<lparr>aug_name = ''resize'', percentage = PInt 100,
                 variant = Resize (PInt 64) resize_by_min_edge\<rparr>"

abbreviation ex_cfg_blur :: config where
  "ex_cfg_blur \<equiv> [''blur'' \<mapsto> [''percentage'' \<mapsto> PInt 30, ''ksize'' \<mapsto> PList [PInt 3, PInt 5]]]"

abbreviation ex_blur :: Transform where
  "ex_blur \<equiv> \<lparr>aug_name = ''blur'', percentage = PInt 30,
               variant = Blur (PList [PInt 3, PInt 5])\<rparr>"

text \<open>
  What \<^verbatim>\<open>np.random.randint(0, i - 1, n)\<close> can return for an axis of length \<open>i\<close>: \<open>n\<close>
  indices, each at least 0 and below \<open>i - 1\<close>.
\<close>

definition drawn_below :: "int \<Rightarrow> nat \<Rightarrow> int list \<Rightarrow> bool" where
  "drawn_below n i c \<longleftrightarrow> length c = nat n \<and> (\<forall>x\<in>set c. 0 \<le> x \<and> x < int i - 1)"

text \<open>
  An image for the crop, and an image for the noise with its results under the two
  readings of the index list.
\<close>

abbreviation ex_img :: "nat ndarray" where
  "ex_img \<equiv> \<lparr>shape = [2, 5, 3], elems = sum_list\<rparr>"

abbreviation ex_noise_img :: "8 word ndarray" where
  "ex_noise_img \<equiv> \<lparr>shape = [3, 3, 3], elems = (\<lambda>idx. 7)\<rparr>"

abbreviation ex_noise_planes :: "8 word ndarray" where
  "ex_noise_planes \<equiv> \<lparr>shape = [3, 3, 3],
      elems = (\<lambda>idx. if idx \<noteq> [] \<and> hd idx = 0 then 0
                    else if idx \<noteq> [] \<and> hd idx = 1 then 255 else 7)\<rparr>"

abbreviation ex_noise_out :: "8 word ndarray" where
  "ex_noise_out \<equiv> \<lparr>shape = [3, 3, 3],
      elems = (\<lambda>idx. if idx = [0, 0, 0] then 0 else if idx = [1, 1, 1] then 255 else 7)\<rparr>"

section \<open>Properties of the augmentation gate\<close>



section \<open>Properties of the state manager\<close>

text \<open>
  Claim C9. Whatever the file system holds and whether or not the extraction raises,
  after \<open>unpack\<close> the files dictionary maps \<open>weights_file\<close> and \<open>state_file\<close> to
  \<open>weights.pth\<close> and \<open>state.pth\<close> joined to the weights directory, and \<open>get_files\<close>
  returns it.
\<close>

theorem unpack_records_files:
  "get_files (fst (snd (unpack sm fs))) =
     (files sm)(''weights_file'' \<mapsto> os_path_join (weights_dir (file_struct_manager sm)) ''weights.pth'',
                ''state_file'' \<mapsto> os_path_join (weights_dir (file_struct_manager sm)) ''state.pth'')
   \<and> get_files (fst (snd (unpack (sm\<lparr>files := Map.empty\<rparr>) fs))) =
     [''weights_file'' \<mapsto> os_path_join (weights_dir (file_struct_manager sm)) ''weights.pth'',
      ''state_file'' \<mapsto> os_path_join (weights_dir (file_struct_manager sm)) ''state.pth'']"
  by (simp add: unpack_def get_files_def Let_def split: sum.splits prod.splits)

text \<open>
  Two of the failures the dictionary survives: no archive at all, and an archive without
  members, from which nothing is extracted although the call returns normally. On a
  directory that neither is empty nor ends with the separator, the joined paths are the
  directory, the separator and the file name.
\<close>

lemma unpack_without_archive:
  assumes "fs (construct_result_file sm) = None"
  shows "fst (unpack sm fs) = Some FileNotFoundError"
proof -
  have "construct_result_file (sm\<lparr>files := m\<rparr>) = construct_result_file sm" for m
    by (simp add: construct_result_file_def)
  with assms show ?thesis
    by (simp add: unpack_def Let_def ZipFile_open_r_def)
qed

lemma unpack_empty_archive:
  assumes "fs (construct_result_file sm) = Some (File (Zip []))"
  shows "fst (unpack sm fs) = None \<and> snd (snd (unpack sm fs)) = fs"
proof -
  have "construct_result_file (sm\<lparr>files := m\<rparr>) = construct_result_file sm" for m
    by (simp add: construct_result_file_def)
  with assms show ?thesis
    by (simp add: unpack_def Let_def ZipFile_open_r_def ZipFile_extractall_def)
qed

lemma os_path_join_plain:
  assumes "d \<noteq> []" "last d \<noteq> CHR ''/''"
  shows "os_path_join d ''weights.pth'' = d @ ''/weights.pth''"
    and "os_path_join d ''state.pth'' = d @ ''/state.pth''"
  using assms by (simp_all add: os_path_join_def)

text \<open>
  Claim C2. On a state manager whose files dictionary is empty (nothing unpacked yet, or
  emptied by an earlier \<open>clear_files\<close>), \<open>clear_files\<close> raises \<open>KeyError\<close> at the first
  subscript; the object and the file system stay as they were.
\<close>

theorem clear_files_without_unpack:
  "clear_files (sm\<lparr>files := Map.empty\<rparr>) fs = (Some KeyError, sm\<lparr>files := Map.empty\<rparr>, fs)"
  by (simp add: clear_files_def)

text \<open>
  The state managers in question: the one the constructor returns, and the one a
  \<open>clear_files\<close> that returned normally leaves.
\<close>

lemma init_files_empty:
  assumes "StateManager_init fsm p fs = (Inr sm, fs')"
  shows "files sm = Map.empty"
  using assms
  by (auto simp: StateManager_init_def Let_def split: if_splits prod.splits option.splits)

lemma clear_files_resets:
  assumes "clear_files sm fs = (None, sm', fs')"
  shows "files sm' = Map.empty"
  using assms
  by (auto simp: clear_files_def split: option.splits prod.splits)

lemma last_join: "b \<noteq> [] \<Longrightarrow> last (os_path_join a b) = last b"
  by (simp add: os_path_join_def)

lemma join_inject: "hd b \<noteq> CHR ''/'' \<Longrightarrow> hd c \<noteq> CHR ''/'' \<Longrightarrow> os_path_join a b = os_path_join a c \<Longrightarrow> b = c"
  by (simp add: os_path_join_def split: if_splits)

lemma basename_join:
  "CHR ''/'' \<notin> set b \<Longrightarrow> b \<noteq> [] \<Longrightarrow> os_path_basename (os_path_join a b) = b"
proof -
  assume b: "CHR ''/'' \<notin> set b" "b \<noteq> []"
  have tw: "takeWhile (\<lambda>c. c \<noteq> CHR ''/'') (rev b @ xs) = rev b" if "xs = [] \<or> hd xs = CHR ''/''" for xs
    using that b by (cases xs) (auto simp: takeWhile_tail)
  from b have hb: "hd b \<noteq> CHR ''/''" by (cases b) auto
  show ?thesis
  proof (cases "a = [] \<or> last a = CHR ''/''")
    case True
    then have "rev a = [] \<or> hd (rev a) = CHR ''/''" by (auto simp: hd_rev)
    then show ?thesis using True b hb by (auto simp: os_path_join_def os_path_basename_def tw)
  next
    case False
    then have "os_path_join a b = a @ ''/'' @ b" using b hb by (simp add: os_path_join_def)
    moreover have "takeWhile (\<lambda>c. c \<noteq> CHR ''/'') (rev b @ (CHR ''/'' # rev a)) = rev b"
      by (rule tw) simp
    ultimately show ?thesis by (simp add: os_path_basename_def)
  qed
qed

lemma last_result_file: "last (construct_result_file sm) = CHR ''p''"
  by (simp add: construct_result_file_def last_join)

lemma canonical_paths:
  assumes "canonical_layout (file_struct_manager sm)"
  shows "weights_file (file_struct_manager sm) \<noteq> construct_result_file sm"
    and "weights_file (file_struct_manager sm) \<noteq> construct_result_file sm @ ''.old''"
    and "optimizer_state_file (file_struct_manager sm) \<noteq> construct_result_file sm"
    and "optimizer_state_file (file_struct_manager sm) \<noteq> construct_result_file sm @ ''.old''"
    and "weights_file (file_struct_manager sm) \<noteq> optimizer_state_file (file_struct_manager sm)"
    and "os_path_basename (weights_file (file_struct_manager sm)) = ''weights.pth''"
    and "os_path_basename (optimizer_state_file (file_struct_manager sm)) = ''state.pth''"
proof -
  let ?f = "file_struct_manager sm"
  have w: "last (weights_file ?f) = CHR ''h''" and s: "last (optimizer_state_file ?f) = CHR ''h''"
    using assms by (simp_all add: canonical_layout_def last_join)
  have r: "last (construct_result_file sm) = CHR ''p''" by (rule last_result_file)
  have o: "last (construct_result_file sm @ ''.old'') = CHR ''d''" by simp
  show "weights_file ?f \<noteq> construct_result_file sm" using w r by auto
  show "weights_file ?f \<noteq> construct_result_file sm @ ''.old''" using w o by auto
  show "optimizer_state_file ?f \<noteq> construct_result_file sm" using s r by auto
  show "optimizer_state_file ?f \<noteq> construct_result_file sm @ ''.old''" using s o by auto
  show "weights_file ?f \<noteq> optimizer_state_file ?f"
    using assms join_inject [of "''weights.pth''" "''state.pth''" "weights_dir ?f"]
    by (auto simp: canonical_layout_def)
  show "os_path_basename (weights_file ?f) = ''weights.pth''"
    using assms by (simp add: canonical_layout_def basename_join)
  show "os_path_basename (optimizer_state_file ?f) = ''state.pth''"
    using assms by (simp add: canonical_layout_def basename_join)
qed

lemmas fs_defs = os_path_exists_def os_path_isfile_def os_path_isdir_def os_remove_def
  os_rename_def and_then_def rm_file_def rename_file_def

lemmas zip_defs = ZipFile_open_w_def ZipFile_write_def ZipFile_close_def ZipFile_open_r_def

lemma rename_file_file:
  assumes "fs pth = Some (File z)" "fs (pth @ ''.old'') \<noteq> Some Dir"
  shows "rename_file fs pth = (None, (fs(pth := None))(pth @ ''.old'' \<mapsto> File z))"
  using assms
  by (cases "fs (pth @ ''.old'')")
     (auto simp: fs_defs Let_def split: node.splits option.splits)

lemma rename_file_absent:
  assumes "fs pth = None" "fs (pth @ ''.old'') \<noteq> Some Dir"
  shows "rename_file fs pth = (None, fs(pth @ ''.old'' := None))"
  using assms
  by (cases "fs (pth @ ''.old'')")
     (auto simp: fs_defs Let_def split: node.splits option.splits)

lemma pack_after_rename:
  assumes r: "rename_file fs (construct_result_file sm) = (None, fs1)"
    and d: "fs1 (construct_result_file sm) \<noteq> Some Dir"
  shows "pack sm fs =
     (let w_file = weights_file (file_struct_manager sm);
          s_file = optimizer_state_file (file_struct_manager sm);
          rf = construct_result_file sm;
          fs2 = fs1(rf \<mapsto> File (Raw []))
      in case fs2 w_file of
           None \<Rightarrow> (Some FileNotFoundError, fs2(rf \<mapsto> File (Zip [])))
         | Some n \<Rightarrow>
             (case fs2 s_file of
                None \<Rightarrow> (Some FileNotFoundError,
                          fs2(rf \<mapsto> File (Zip [zip_member (os_path_basename w_file) n])))
              | Some m \<Rightarrow>
                  and_then (rm_file (fs2(rf \<mapsto> File (Zip [zip_member (os_path_basename w_file) n,
                                zip_member (os_path_basename s_file) m]))) w_file)
                    (\<lambda>fs4. rm_file fs4 s_file)))"
  using d
  by (simp add: pack_def r and_then_def zip_defs Let_def split: option.splits node.splits)

lemma rename_file_result:
  assumes "fs pth \<noteq> Some Dir" "fs (pth @ ''.old'') \<noteq> Some Dir"
  shows "rename_file fs pth = (None, (fs(pth := None))(pth @ ''.old'' := fs pth))"
proof (cases "fs pth")
  case None
  then show ?thesis using assms rename_file_absent [of fs pth] by (simp add: fun_upd_idem)
next
  case (Some n)
  with assms obtain z where "fs pth = Some (File z)" by (cases n) auto
  then show ?thesis using assms rename_file_file [of fs pth z] by simp
qed

lemma sanitize_weights: "sanitize ''weights.pth'' = ''weights.pth''"
  by (simp add: sanitize_def)

lemma sanitize_state: "sanitize ''state.pth'' = ''state.pth''"
  by (simp add: sanitize_def)

text \<open>
  Claim C5. With the canonical layout, a regular file at the archive path, no directory at
  the backup path and both artifact files present, \<open>pack\<close> returns normally and leaves:
  the previous archive, unchanged, at the backup path (whatever was there before is
  gone, so there is one backup); a new archive at the archive path holding the weights
  file and the optimizer state file under their base names, in that order; no file at
  either artifact path; everything else as it was.
\<close>

theorem pack_rotates_backup:
  assumes c: "canonical_layout (file_struct_manager sm)"
    and z: "fs (construct_result_file sm) = Some (File z)"
    and o: "fs (construct_result_file sm @ ''.old'') \<noteq> Some Dir"
    and w: "fs (weights_file (file_struct_manager sm)) = Some (File w)"
    and s: "fs (optimizer_state_file (file_struct_manager sm)) = Some (File s)"
  shows "pack sm fs =
     (None, fs(construct_result_file sm @ ''.old'' \<mapsto> File z,
               construct_result_file sm \<mapsto> File (Zip [(''weights.pth'', w), (''state.pth'', s)]),
               weights_file (file_struct_manager sm) := None,
               optimizer_state_file (file_struct_manager sm) := None))"
proof -
  let ?rf = "construct_result_file sm"
  let ?wf = "weights_file (file_struct_manager sm)"
  let ?sf = "optimizer_state_file (file_struct_manager sm)"
  note p = canonical_paths [OF c]
  have r: "rename_file fs ?rf = (None, (fs(?rf := None))(?rf @ ''.old'' \<mapsto> File z))"
    using z o by (rule rename_file_file)
  have "pack sm fs = (None, (((fs(?rf := None))(?rf @ ''.old'' \<mapsto> File z))
           (?rf \<mapsto> File (Zip [(''weights.pth'', w), (''state.pth'', s)]),
            ?wf := None, ?sf := None)))"
    using p w s
    by (subst pack_after_rename [OF r])
       (auto simp: Let_def zip_member_def and_then_def rm_file_def os_path_exists_def
          os_path_isfile_def os_remove_def)
  also have "(((fs(?rf := None))(?rf @ ''.old'' \<mapsto> File z))
           (?rf \<mapsto> File (Zip [(''weights.pth'', w), (''state.pth'', s)]),
            ?wf := None, ?sf := None)) =
        fs(?rf @ ''.old'' \<mapsto> File z,
           ?rf \<mapsto> File (Zip [(''weights.pth'', w), (''state.pth'', s)]),
           ?wf := None, ?sf := None)"
    by (rule ext) simp
  finally show ?thesis .
qed

lemmas rm_defs = and_then_def rm_file_def os_path_exists_def os_path_isfile_def os_remove_def

lemma pack_both_present:
  assumes c: "canonical_layout (file_struct_manager sm)"
    and d: "fs (construct_result_file sm) \<noteq> Some Dir"
    and o: "fs (construct_result_file sm @ ''.old'') \<noteq> Some Dir"
    and w: "fs (weights_file (file_struct_manager sm)) = Some (File w)"
    and s: "fs (optimizer_state_file (file_struct_manager sm)) = Some (File s)"
  shows "pack sm fs =
     (None, fs(construct_result_file sm @ ''.old'' := fs (construct_result_file sm),
               construct_result_file sm \<mapsto> File (Zip [(''weights.pth'', w), (''state.pth'', s)]),
               weights_file (file_struct_manager sm) := None,
               optimizer_state_file (file_struct_manager sm) := None))"
proof -
  let ?rf = "construct_result_file sm"
  let ?wf = "weights_file (file_struct_manager sm)"
  let ?sf = "optimizer_state_file (file_struct_manager sm)"
  note p = canonical_paths [OF c]
  have r: "rename_file fs ?rf = (None, (fs(?rf := None))(?rf @ ''.old'' := fs ?rf))"
    using d o by (rule rename_file_result)
  have "pack sm fs = (None, (((fs(?rf := None))(?rf @ ''.old'' := fs ?rf))
           (?rf \<mapsto> File (Zip [(''weights.pth'', w), (''state.pth'', s)]),
            ?wf := None, ?sf := None)))"
    using p w s
    by (subst pack_after_rename [OF r]) (auto simp: Let_def zip_member_def rm_defs)
  also have "(((fs(?rf := None))(?rf @ ''.old'' := fs ?rf))
           (?rf \<mapsto> File (Zip [(''weights.pth'', w), (''state.pth'', s)]),
            ?wf := None, ?sf := None)) =
        fs(?rf @ ''.old'' := fs ?rf,
           ?rf \<mapsto> File (Zip [(''weights.pth'', w), (''state.pth'', s)]),
           ?wf := None, ?sf := None)"
    by (rule ext) simp
  finally show ?thesis .
qed

text \<open>
  Claim C6. With the canonical layout, both artifact files present as regular files and
  no directory at \<open>prev_start_state.zip\<close> in the weights directory or at its backup path,
  the constructor returns a state manager with the caller's prefix and an empty files
  dictionary, the archive \<open>prev_start_state.zip\<close> in the weights directory holds both
  files, and neither artifact file is left.
\<close>

theorem init_packs_previous_start:
  assumes c: "canonical_layout fsm"
    and w: "fs (weights_file fsm) = Some (File w)"
    and s: "fs (optimizer_state_file fsm) = Some (File s)"
    and d: "fs (os_path_join (weights_dir fsm) ''prev_start_state.zip'') \<noteq> Some Dir"
    and o: "fs (os_path_join (weights_dir fsm) ''prev_start_state.zip'' @ ''.old'') \<noteq> Some Dir"
  shows "\<exists>fs'. StateManager_init fsm p fs =
            (Inr \<lparr>file_struct_manager = fsm, files = Map.empty, preffix = p\<rparr>, fs')
          \<and> fs' (os_path_join (weights_dir fsm) ''prev_start_state.zip'') =
              Some (File (Zip [(''weights.pth'', w), (''state.pth'', s)]))
          \<and> fs' (weights_file fsm) = None
          \<and> fs' (optimizer_state_file fsm) = None"
proof -
  let ?sm = "\<lparr>file_struct_manager = fsm, files = Map.empty, preffix = Some ''prev_start''\<rparr>"
  have rf: "construct_result_file ?sm = os_path_join (weights_dir fsm) ''prev_start_state.zip''"
    by (simp add: construct_result_file_def)
  have c': "canonical_layout (file_struct_manager ?sm)" using c by simp
  note p = canonical_paths [OF c', unfolded rf, simplified]
  have pk: "pack ?sm fs = (None, fs(construct_result_file ?sm @ ''.old'' := fs (construct_result_file ?sm),
               construct_result_file ?sm \<mapsto> File (Zip [(''weights.pth'', w), (''state.pth'', s)]),
               weights_file (file_struct_manager ?sm) := None,
               optimizer_state_file (file_struct_manager ?sm) := None))"
    by (rule pack_both_present [OF c']) (use w s d o in \<open>simp_all add: rf\<close>)
  show ?thesis
    using w s p
    by (simp add: StateManager_init_def Let_def os_path_exists_def os_path_isfile_def pk)
       (simp add: rf)
qed

lemma extract_file:
  assumes "\<not> is_dir_name name" "fs (os_path_join dir (sanitize name)) \<noteq> Some Dir"
  shows "extract_member fs dir name c = (None, fs(os_path_join dir (sanitize name) \<mapsto> File c))"
  using assms by (simp add: extract_member_def Let_def os_path_isdir_def)

text \<open>
  Claim C3. With the canonical layout, both artifact files present as regular files, the
  directory of the archive path present and no directory at the archive path or its
  backup path, \<open>pack\<close> returns normally and removes both artifact files, and \<open>unpack\<close>
  with the same prefix on the resulting file system returns normally and puts both files
  back at their paths with their contents.
\<close>

theorem pack_unpack_restores:
  assumes c: "canonical_layout (file_struct_manager sm)"
    and w: "fs (weights_file (file_struct_manager sm)) = Some (File w)"
    and s: "fs (optimizer_state_file (file_struct_manager sm)) = Some (File s)"
    and p: "fs (os_path_dirname (construct_result_file sm)) = Some Dir"
    and d: "fs (construct_result_file sm) \<noteq> Some Dir"
    and o: "fs (construct_result_file sm @ ''.old'') \<noteq> Some Dir"
  shows "\<exists>fs1 sm' fs2. pack sm fs = (None, fs1)
          \<and> fs1 (weights_file (file_struct_manager sm)) = None
          \<and> fs1 (optimizer_state_file (file_struct_manager sm)) = None
          \<and> unpack sm fs1 = (None, sm', fs2)
          \<and> fs2 (weights_file (file_struct_manager sm)) = Some (File w)
          \<and> fs2 (optimizer_state_file (file_struct_manager sm)) = Some (File s)"
proof -
  let ?rf = "construct_result_file sm"
  let ?wf = "weights_file (file_struct_manager sm)"
  let ?sf = "optimizer_state_file (file_struct_manager sm)"
  let ?dir = "weights_dir (file_struct_manager sm)"
  let ?fs1 = "fs(?rf @ ''.old'' := fs ?rf,
               ?rf \<mapsto> File (Zip [(''weights.pth'', w), (''state.pth'', s)]),
               ?wf := None, ?sf := None)"
  note cp = canonical_paths [OF c]
  have wj: "os_path_join ?dir ''weights.pth'' = ?wf" and sj: "os_path_join ?dir ''state.pth'' = ?sf"
    using c by (simp_all add: canonical_layout_def)
  have pk: "pack sm fs = (None, ?fs1)" by (rule pack_both_present [OF c d o w s])
  have rf': "construct_result_file
       (sm\<lparr>files := (files sm)(''weights_file'' \<mapsto> ?wf, ''state_file'' \<mapsto> ?sf)\<rparr>) = ?rf"
    by (simp add: construct_result_file_def)
  have op: "ZipFile_open_r ?fs1 ?rf =
      Inr \<lparr>zf_path = ?rf, zf_members = [(''weights.pth'', w), (''state.pth'', s)]\<rparr>"
    using cp by (simp add: ZipFile_open_r_def)
  have ex: "ZipFile_extractall ?fs1
       \<lparr>zf_path = ?rf, zf_members = [(''weights.pth'', w), (''state.pth'', s)]\<rparr> ?dir =
       (None, ?fs1(?wf \<mapsto> File w, ?sf \<mapsto> File s))"
    using cp
    by (simp add: ZipFile_extractall_def and_then_def extract_file sanitize_weights sanitize_state
          is_dir_name_def wj sj)
  have un: "unpack sm ?fs1 =
     (None, sm\<lparr>files := (files sm)(''weights_file'' \<mapsto> ?wf, ''state_file'' \<mapsto> ?sf)\<rparr>,
      ?fs1(?wf \<mapsto> File w, ?sf \<mapsto> File s))"
    by (simp add: unpack_def Let_def wj sj rf' op ex)
  have a: "?fs1 ?wf = None" "?fs1 ?sf = None"
    using cp by simp_all
  have b: "(?fs1(?wf \<mapsto> File w, ?sf \<mapsto> File s)) ?wf = Some (File w)"
    "(?fs1(?wf \<mapsto> File w, ?sf \<mapsto> File s)) ?sf = Some (File s)"
    using cp by simp_all
  from pk a un b show ?thesis by blast
qed

text \<open>
  Claim C1, amended. With the canonical layout, the directory of the archive path present
  and no directory at the archive path or its backup path, \<open>pack\<close> with a missing
  artifact file raises \<open>FileNotFoundError\<close>, and an archive stays at the archive path:
  empty when the weights file is missing, holding only the weights member otherwise. The
  previous archive, if any, is at the backup path, and the artifact files are as they
  were.
\<close>

theorem pack_missing_artifact:
  assumes c: "canonical_layout (file_struct_manager sm)"
    and m: "fs (weights_file (file_struct_manager sm)) = None
            \<or> fs (optimizer_state_file (file_struct_manager sm)) = None"
    and e: "fs (os_path_dirname (construct_result_file sm)) = Some Dir"
    and d: "fs (construct_result_file sm) \<noteq> Some Dir"
    and o: "fs (construct_result_file sm @ ''.old'') \<noteq> Some Dir"
  shows "fst (pack sm fs) = Some FileNotFoundError
       \<and> snd (pack sm fs) (construct_result_file sm) =
           Some (File (Zip (case fs (weights_file (file_struct_manager sm)) of
                              None \<Rightarrow> []
                            | Some n \<Rightarrow> [zip_member ''weights.pth'' n])))
       \<and> snd (pack sm fs) (construct_result_file sm @ ''.old'') = fs (construct_result_file sm)
       \<and> snd (pack sm fs) (weights_file (file_struct_manager sm)) =
           fs (weights_file (file_struct_manager sm))
       \<and> snd (pack sm fs) (optimizer_state_file (file_struct_manager sm)) =
           fs (optimizer_state_file (file_struct_manager sm))"
proof -
  let ?rf = "construct_result_file sm"
  note p = canonical_paths [OF c]
  have r: "rename_file fs ?rf = (None, (fs(?rf := None))(?rf @ ''.old'' := fs ?rf))"
    using d o by (rule rename_file_result)
  show ?thesis
    using p m
    by (subst (1 2 3 4 5) pack_after_rename [OF r])
       (auto simp: Let_def split: option.splits)
qed

lemma ex_canonical: "canonical_layout ex_fsm"
  by (simp add: canonical_layout_def os_path_join_def)

lemma ex_result_file: "construct_result_file ex_sm = ''ckpt/state.zip''"
  by (simp add: construct_result_file_def os_path_join_def)

text \<open>
  Claim C1 as stated fails: in an existing weights directory, with the weights file
  present, the optimizer state file missing and no archive before, \<open>pack\<close> raises \<open>FileNotFoundError\<close> and leaves a well-formed
  archive holding the weights file alone at the archive path.
\<close>

theorem pack_leaves_partial_archive:
  "ex_fs_no_state ''ckpt'' = Some Dir
   \<and> ex_fs_no_state ''ckpt/state.pth'' = None
   \<and> ex_fs_no_state ''ckpt/state.zip'' = None
   \<and> fst (pack ex_sm ex_fs_no_state) = Some FileNotFoundError
   \<and> snd (pack ex_sm ex_fs_no_state) ''ckpt/state.zip'' =
       Some (File (Zip [(''weights.pth'', Raw [1, 2])]))"
  by (simp add: pack_def construct_result_file_def os_path_join_def os_path_basename_def
        fs_defs zip_defs zip_member_def Let_def)

theorem pack_missing_artifact_witness:
  "canonical_layout (file_struct_manager ex_sm)
   \<and> (ex_fs_no_state (weights_file (file_struct_manager ex_sm)) = None
        \<or> ex_fs_no_state (optimizer_state_file (file_struct_manager ex_sm)) = None)
   \<and> ex_fs_no_state (os_path_dirname (construct_result_file ex_sm)) = Some Dir
   \<and> ex_fs_no_state (construct_result_file ex_sm) \<noteq> Some Dir
   \<and> ex_fs_no_state (construct_result_file ex_sm @ ''.old'') \<noteq> Some Dir
   \<and> (fst (pack ex_sm ex_fs_no_state) = Some FileNotFoundError
       \<and> snd (pack ex_sm ex_fs_no_state) (construct_result_file ex_sm) =
           Some (File (Zip (case ex_fs_no_state (weights_file (file_struct_manager ex_sm)) of
                              None \<Rightarrow> []
                            | Some n \<Rightarrow> [zip_member ''weights.pth'' n])))
       \<and> snd (pack ex_sm ex_fs_no_state) (construct_result_file ex_sm @ ''.old'') =
           ex_fs_no_state (construct_result_file ex_sm)
       \<and> snd (pack ex_sm ex_fs_no_state) (weights_file (file_struct_manager ex_sm)) =
           ex_fs_no_state (weights_file (file_struct_manager ex_sm))
       \<and> snd (pack ex_sm ex_fs_no_state) (optimizer_state_file (file_struct_manager ex_sm)) =
           ex_fs_no_state (optimizer_state_file (file_struct_manager ex_sm)))"
proof -
  have c: "canonical_layout (file_struct_manager ex_sm)" using ex_canonical by simp
  have m: "ex_fs_no_state (weights_file (file_struct_manager ex_sm)) = None
        \<or> ex_fs_no_state (optimizer_state_file (file_struct_manager ex_sm)) = None" by simp
  have e: "ex_fs_no_state (os_path_dirname (construct_result_file ex_sm)) = Some Dir"
    by (simp add: ex_result_file os_path_dirname_def)
  have d: "ex_fs_no_state (construct_result_file ex_sm) \<noteq> Some Dir"
    and o: "ex_fs_no_state (construct_result_file ex_sm @ ''.old'') \<noteq> Some Dir"
    by (simp_all add: ex_result_file)
  from c m e d o pack_missing_artifact [OF c m e d o] show ?thesis by blast
qed

theorem pack_rotates_backup_witness:
  "canonical_layout (file_struct_manager ex_sm)
   \<and> ex_fs_archived (construct_result_file ex_sm) = Some (File (Zip [(''weights.pth'', Raw [9])]))
   \<and> ex_fs_archived (construct_result_file ex_sm @ ''.old'') \<noteq> Some Dir
   \<and> ex_fs_archived (weights_file (file_struct_manager ex_sm)) = Some (File (Raw [1, 2]))
   \<and> ex_fs_archived (optimizer_state_file (file_struct_manager ex_sm)) = Some (File (Raw [3]))
   \<and> pack ex_sm ex_fs_archived =
       (None, ex_fs_archived
          (construct_result_file ex_sm @ ''.old'' \<mapsto> File (Zip [(''weights.pth'', Raw [9])]),
           construct_result_file ex_sm \<mapsto>
             File (Zip [(''weights.pth'', Raw [1, 2]), (''state.pth'', Raw [3])]),
           weights_file (file_struct_manager ex_sm) := None,
           optimizer_state_file (file_struct_manager ex_sm) := None))"
proof -
  have c: "canonical_layout (file_struct_manager ex_sm)" using ex_canonical by simp
  have z: "ex_fs_archived (construct_result_file ex_sm) = Some (File (Zip [(''weights.pth'', Raw [9])]))"
    and o: "ex_fs_archived (construct_result_file ex_sm @ ''.old'') \<noteq> Some Dir"
    by (simp_all add: ex_result_file)
  have w: "ex_fs_archived (weights_file (file_struct_manager ex_sm)) = Some (File (Raw [1, 2]))"
    and s: "ex_fs_archived (optimizer_state_file (file_struct_manager ex_sm)) = Some (File (Raw [3]))"
    by simp_all
  from c z o w s pack_rotates_backup [OF c z o w s] show ?thesis by blast
qed

theorem init_packs_previous_start_witness:
  "canonical_layout ex_fsm
   \<and> ex_fs_both (weights_file ex_fsm) = Some (File (Raw [1, 2]))
   \<and> ex_fs_both (optimizer_state_file ex_fsm) = Some (File (Raw [3]))
   \<and> ex_fs_both (os_path_join (weights_dir ex_fsm) ''prev_start_state.zip'') \<noteq> Some Dir
   \<and> ex_fs_both (os_path_join (weights_dir ex_fsm) ''prev_start_state.zip'' @ ''.old'') \<noteq> Some Dir
   \<and> (\<exists>fs'. StateManager_init ex_fsm None ex_fs_both =
            (Inr \<lparr>file_struct_manager = ex_fsm, files = Map.empty, preffix = None\<rparr>, fs')
          \<and> fs' (os_path_join (weights_dir ex_fsm) ''prev_start_state.zip'') =
               Some (File (Zip [(''weights.pth'', Raw [1, 2]), (''state.pth'', Raw [3])]))
          \<and> fs' (weights_file ex_fsm) = None
          \<and> fs' (optimizer_state_file ex_fsm) = None)"
proof -
  have w: "ex_fs_both (weights_file ex_fsm) = Some (File (Raw [1, 2]))"
    and s: "ex_fs_both (optimizer_state_file ex_fsm) = Some (File (Raw [3]))"
    and d: "ex_fs_both (os_path_join (weights_dir ex_fsm) ''prev_start_state.zip'') \<noteq> Some Dir"
    and o: "ex_fs_both (os_path_join (weights_dir ex_fsm) ''prev_start_state.zip'' @ ''.old'') \<noteq> Some Dir"
    by (simp_all add: os_path_join_def)
  from ex_canonical w s d o init_packs_previous_start [OF ex_canonical w s d o, of None]
  show ?thesis by blast
qed

theorem pack_unpack_restores_witness:
  "canonical_layout (file_struct_manager ex_sm)
   \<and> ex_fs_both (weights_file (file_struct_manager ex_sm)) = Some (File (Raw [1, 2]))
   \<and> ex_fs_both (optimizer_state_file (file_struct_manager ex_sm)) = Some (File (Raw [3]))
   \<and> ex_fs_both (os_path_dirname (construct_result_file ex_sm)) = Some Dir
   \<and> ex_fs_both (construct_result_file ex_sm) \<noteq> Some Dir
   \<and> ex_fs_both (construct_result_file ex_sm @ ''.old'') \<noteq> Some Dir
   \<and> (\<exists>fs1 sm' fs2. pack ex_sm ex_fs_both = (None, fs1)
          \<and> fs1 (weights_file (file_struct_manager ex_sm)) = None
          \<and> fs1 (optimizer_state_file (file_struct_manager ex_sm)) = None
          \<and> unpack ex_sm fs1 = (None, sm', fs2)
          \<and> fs2 (weights_file (file_struct_manager ex_sm)) = Some (File (Raw [1, 2]))
          \<and> fs2 (optimizer_state_file (file_struct_manager ex_sm)) = Some (File (Raw [3])))"
proof -
  have c: "canonical_layout (file_struct_manager ex_sm)" using ex_canonical by simp
  have w: "ex_fs_both (weights_file (file_struct_manager ex_sm)) = Some (File (Raw [1, 2]))"
    and s: "ex_fs_both (optimizer_state_file (file_struct_manager ex_sm)) = Some (File (Raw [3]))"
    by simp_all
  have p: "ex_fs_both (os_path_dirname (construct_result_file ex_sm)) = Some Dir"
    by (simp add: ex_result_file os_path_dirname_def)
  have d: "ex_fs_both (construct_result_file ex_sm) \<noteq> Some Dir"
    and o: "ex_fs_both (construct_result_file ex_sm @ ''.old'') \<noteq> Some Dir"
    by (simp_all add: ex_result_file)
  from c w s p d o pack_unpack_restores [OF c w s p d o] show ?thesis by blast
qed

section \<open>Properties of the configuration round trip\<close>

lemmas init_defs = Augmentation_init_def param_def get_config_path_def getitem_def bind_err_def
  with_attrs_def

lemmas config_defs = get_config_def get_percetage_def get_name_def internal_get_config_def

lemma HorizontalFlip_init_roundtrip:
  assumes "HorizontalFlip_init cfg = Inr a"
  shows "\<exists>frag. cfg ''hflip'' = Some frag \<and> aug_name a = ''hflip''
           \<and> ([''percentage'' \<mapsto> percentage a] ++ internal_get_config a) \<subseteq>\<^sub>m
               (if ''hflip'' \<in> {''resize'', ''normalize'', ''to_pytorch''}
                then frag(''percentage'' \<mapsto> PInt 100) else frag)
           \<and> HorizontalFlip_init (get_config a) = Inr a"
  using assms
  by (auto simp: HorizontalFlip_init_def init_defs config_defs map_le_def is_pair_def
        split: option.splits pyval.splits list.splits if_splits)

lemma VerticalFlip_init_roundtrip:
  assumes "VerticalFlip_init cfg = Inr a"
  shows "\<exists>frag. cfg ''vflip'' = Some frag \<and> aug_name a = ''vflip''
           \<and> ([''percentage'' \<mapsto> percentage a] ++ internal_get_config a) \<subseteq>\<^sub>m
               (if ''vflip'' \<in> {''resize'', ''normalize'', ''to_pytorch''}
                then frag(''percentage'' \<mapsto> PInt 100) else frag)
           \<and> VerticalFlip_init (get_config a) = Inr a"
  using assms
  by (auto simp: VerticalFlip_init_def init_defs config_defs map_le_def is_pair_def
        split: option.splits pyval.splits list.splits if_splits)

lemma GaussNoise_init_roundtrip:
  assumes "GaussNoise_init cfg = Inr a"
  shows "\<exists>frag. cfg ''gauss_noise'' = Some frag \<and> aug_name a = ''gauss_noise''
           \<and> ([''percentage'' \<mapsto> percentage a] ++ internal_get_config a) \<subseteq>\<^sub>m
               (if ''gauss_noise'' \<in> {''resize'', ''normalize'', ''to_pytorch''}
                then frag(''percentage'' \<mapsto> PInt 100) else frag)
           \<and> GaussNoise_init (get_config a) = Inr a"
  using assms
  by (auto simp: GaussNoise_init_def init_defs config_defs map_le_def is_pair_def
        split: option.splits pyval.splits list.splits if_splits)

lemma SNPNoise_init_roundtrip:
  assumes "SNPNoise_init cfg = Inr a"
  shows "\<exists>frag. cfg ''snp_noise'' = Some frag \<and> aug_name a = ''snp_noise''
           \<and> ([''percentage'' \<mapsto> percentage a] ++ internal_get_config a) \<subseteq>\<^sub>m
               (if ''snp_noise'' \<in> {''resize'', ''normalize'', ''to_pytorch''}
                then frag(''percentage'' \<mapsto> PInt 100) else frag)
           \<and> SNPNoise_init (get_config a) = Inr a"
  using assms
  by (auto simp: SNPNoise_init_def init_defs config_defs map_le_def is_pair_def
        split: option.splits pyval.splits list.splits if_splits)

lemma Blur_init_roundtrip:
  assumes "Blur_init cfg = Inr a"
  shows "\<exists>frag. cfg ''blur'' = Some frag \<and> aug_name a = ''blur''
           \<and> ([''percentage'' \<mapsto> percentage a] ++ internal_get_config a) \<subseteq>\<^sub>m
               (if ''blur'' \<in> {''resize'', ''normalize'', ''to_pytorch''}
                then frag(''percentage'' \<mapsto> PInt 100) else frag)
           \<and> Blur_init (get_config a) = Inr a"
  using assms
  by (auto simp: Blur_init_def init_defs config_defs map_le_def is_pair_def
        split: option.splits pyval.splits list.splits if_splits)

lemma Resize_init_roundtrip:
  assumes "Resize_init cfg = Inr a"
  shows "\<exists>frag. cfg ''resize'' = Some frag \<and> aug_name a = ''resize''
           \<and> ([''percentage'' \<mapsto> percentage a] ++ internal_get_config a) \<subseteq>\<^sub>m
               (if ''resize'' \<in> {''resize'', ''normalize'', ''to_pytorch''}
                then frag(''percentage'' \<mapsto> PInt 100) else frag)
           \<and> Resize_init (get_config a) = Inr a"
  using assms
  by (auto simp: Resize_init_def init_defs config_defs map_le_def is_pair_def
        split: option.splits pyval.splits list.splits if_splits)

lemma CentralCrop_init_roundtrip:
  assumes "CentralCrop_init cfg = Inr a"
  shows "\<exists>frag. cfg ''ccrop'' = Some frag \<and> aug_name a = ''ccrop''
           \<and> ([''percentage'' \<mapsto> percentage a] ++ internal_get_config a) \<subseteq>\<^sub>m
               (if ''ccrop'' \<in> {''resize'', ''normalize'', ''to_pytorch''}
                then frag(''percentage'' \<mapsto> PInt 100) else frag)
           \<and> CentralCrop_init (get_config a) = Inr a"
  using assms
  by (auto simp: CentralCrop_init_def init_defs config_defs map_le_def is_pair_def
        split: option.splits pyval.splits list.splits if_splits)

lemma RandomCrop_init_roundtrip:
  assumes "RandomCrop_init cfg = Inr a"
  shows "\<exists>frag. cfg ''rcrop'' = Some frag \<and> aug_name a = ''rcrop''
           \<and> ([''percentage'' \<mapsto> percentage a] ++ internal_get_config a) \<subseteq>\<^sub>m
               (if ''rcrop'' \<in> {''resize'', ''normalize'', ''to_pytorch''}
                then frag(''percentage'' \<mapsto> PInt 100) else frag)
           \<and> RandomCrop_init (get_config a) = Inr a"
  using assms
  by (auto simp: RandomCrop_init_def init_defs config_defs map_le_def is_pair_def
        split: option.splits pyval.splits list.splits if_splits)

lemma RandomRotate_init_roundtrip:
  assumes "RandomRotate_init cfg = Inr a"
  shows "\<exists>frag. cfg ''rrotate'' = Some frag \<and> aug_name a = ''rrotate''
           \<and> ([''percentage'' \<mapsto> percentage a] ++ internal_get_config a) \<subseteq>\<^sub>m
               (if ''rrotate'' \<in> {''resize'', ''normalize'', ''to_pytorch''}
                then frag(''percentage'' \<mapsto> PInt 100) else frag)
           \<and> RandomRotate_init (get_config a) = Inr a"
  using assms
  by (auto simp: RandomRotate_init_def init_defs config_defs map_le_def is_pair_def
        split: option.splits pyval.splits list.splits if_splits)

lemma ToPyTorch_init_roundtrip:
  assumes "ToPyTorch_init cfg = Inr a"
  shows "\<exists>frag. cfg ''to_pytorch'' = Some frag \<and> aug_name a = ''to_pytorch''
           \<and> ([''percentage'' \<mapsto> percentage a] ++ internal_get_config a) \<subseteq>\<^sub>m
               (if ''to_pytorch'' \<in> {''resize'', ''normalize'', ''to_pytorch''}
                then frag(''percentage'' \<mapsto> PInt 100) else frag)
           \<and> ToPyTorch_init (get_config a) = Inr a"
  using assms
  by (auto simp: ToPyTorch_init_def init_defs config_defs map_le_def is_pair_def
        split: option.splits pyval.splits list.splits if_splits)

lemma Normalize_init_roundtrip:
  assumes "Normalize_init cfg = Inr a"
  shows "\<exists>frag. cfg ''normalize'' = Some frag \<and> aug_name a = ''normalize''
           \<and> ([''percentage'' \<mapsto> percentage a] ++ internal_get_config a) \<subseteq>\<^sub>m
               (if ''normalize'' \<in> {''resize'', ''normalize'', ''to_pytorch''}
                then frag(''percentage'' \<mapsto> PInt 100) else frag)
           \<and> Normalize_init (get_config a) = Inr a"
  using assms
  by (auto simp: Normalize_init_def init_defs config_defs map_le_def is_pair_def
        split: option.splits pyval.splits list.splits if_splits)

lemma RandomBrightness_init_roundtrip:
  assumes "RandomBrightness_init cfg = Inr a"
  shows "\<exists>frag. cfg ''rbrightness'' = Some frag \<and> aug_name a = ''rbrightness''
           \<and> ([''percentage'' \<mapsto> percentage a] ++ internal_get_config a) \<subseteq>\<^sub>m
               (if ''rbrightness'' \<in> {''resize'', ''normalize'', ''to_pytorch''}
                then frag(''percentage'' \<mapsto> PInt 100) else frag)
           \<and> RandomBrightness_init (get_config a) = Inr a"
  using assms
  by (auto simp: RandomBrightness_init_def init_defs config_defs map_le_def is_pair_def
        split: option.splits pyval.splits list.splits if_splits)

lemma RandomContrast_init_roundtrip:
  assumes "RandomContrast_init cfg = Inr a"
  shows "\<exists>frag. cfg ''rcontrast'' = Some frag \<and> aug_name a = ''rcontrast''
           \<and> ([''percentage'' \<mapsto> percentage a] ++ internal_get_config a) \<subseteq>\<^sub>m
               (if ''rcontrast'' \<in> {''resize'', ''normalize'', ''to_pytorch''}
                then frag(''percentage'' \<mapsto> PInt 100) else frag)
           \<and> RandomContrast_init (get_config a) = Inr a"
  using assms
  by (auto simp: RandomContrast_init_def init_defs config_defs map_le_def is_pair_def
        split: option.splits pyval.splits list.splits if_splits)

lemma registry_cases:
  assumes "augmentations_dict key = Some ctor"
  obtains
    (HorizontalFlip) "key = ''hflip''" "ctor = HorizontalFlip_init"
  | (VerticalFlip) "key = ''vflip''" "ctor = VerticalFlip_init"
  | (GaussNoise) "key = ''gauss_noise''" "ctor = GaussNoise_init"
  | (SNPNoise) "key = ''snp_noise''" "ctor = SNPNoise_init"
  | (Blur) "key = ''blur''" "ctor = Blur_init"
  | (Resize) "key = ''resize''" "ctor = Resize_init"
  | (CentralCrop) "key = ''ccrop''" "ctor = CentralCrop_init"
  | (RandomCrop) "key = ''rcrop''" "ctor = RandomCrop_init"
  | (RandomRotate) "key = ''rrotate''" "ctor = RandomRotate_init"
  | (ToPyTorch) "key = ''to_pytorch''" "ctor = ToPyTorch_init"
  | (Normalize) "key = ''normalize''" "ctor = Normalize_init"
  | (RandomBrightness) "key = ''rbrightness''" "ctor = RandomBrightness_init"
  | (RandomContrast) "key = ''rcontrast''" "ctor = RandomContrast_init"
proof -
  have "(key, ctor) \<in> set
     [(''hflip'', HorizontalFlip_init),
      (''vflip'', VerticalFlip_init),
      (''gauss_noise'', GaussNoise_init),
      (''snp_noise'', SNPNoise_init),
      (''blur'', Blur_init),
      (''resize'', Resize_init),
      (''ccrop'', CentralCrop_init),
      (''rcrop'', RandomCrop_init),
      (''rrotate'', RandomRotate_init),
      (''to_pytorch'', ToPyTorch_init),
      (''normalize'', Normalize_init),
      (''rbrightness'', RandomBrightness_init),
      (''rcontrast'', RandomContrast_init)]"
    using assms unfolding augmentations_dict_def by (rule map_of_SomeD)
  then have
    "key = ''hflip'' \<and> ctor = HorizontalFlip_init
     \<or> key = ''vflip'' \<and> ctor = VerticalFlip_init
     \<or> key = ''gauss_noise'' \<and> ctor = GaussNoise_init
     \<or> key = ''snp_noise'' \<and> ctor = SNPNoise_init
     \<or> key = ''blur'' \<and> ctor = Blur_init
     \<or> key = ''resize'' \<and> ctor = Resize_init
     \<or> key = ''ccrop'' \<and> ctor = CentralCrop_init
     \<or> key = ''rcrop'' \<and> ctor = RandomCrop_init
     \<or> key = ''rrotate'' \<and> ctor = RandomRotate_init
     \<or> key = ''to_pytorch'' \<and> ctor = ToPyTorch_init
     \<or> key = ''normalize'' \<and> ctor = Normalize_init
     \<or> key = ''rbrightness'' \<and> ctor = RandomBrightness_init
     \<or> key = ''rcontrast'' \<and> ctor = RandomContrast_init"
    by simp
  then show ?thesis
    by (elim disjE conjE) (rule that; assumption)+
qed

lemma roundtrip_combine:
  assumes "\<exists>frag. cfg key = Some frag \<and> aug_name a = key
           \<and> ([''percentage'' \<mapsto> percentage a] ++ internal_get_config a) \<subseteq>\<^sub>m F frag
           \<and> ctor (get_config a) = Inr a"
  shows "\<exists>frag ret. cfg key = Some frag \<and> get_config a = [key \<mapsto> ret]
           \<and> ''percentage'' \<in> dom ret \<and> ret \<subseteq>\<^sub>m F frag
           \<and> ctor (get_config a) = Inr a"
proof -
  from assms obtain frag where f: "cfg key = Some frag" "aug_name a = key"
    "([''percentage'' \<mapsto> percentage a] ++ internal_get_config a) \<subseteq>\<^sub>m F frag"
    "ctor (get_config a) = Inr a"
    by (elim exE conjE)
  have g: "get_config a = [key \<mapsto> [''percentage'' \<mapsto> percentage a] ++ internal_get_config a]"
    using f(2) by (simp add: get_config_def get_name_def get_percetage_def)
  have d: "''percentage'' \<in> dom ([''percentage'' \<mapsto> percentage a] ++ internal_get_config a)"
    by simp
  show ?thesis
    by (intro exI [of _ frag] exI [of _ "[''percentage'' \<mapsto> percentage a] ++ internal_get_config a"]
          conjI f g d)
qed

text \<open>
  Claim C7, amended. For every registered constructor and every configuration it accepts,
  \<open>get_config\<close> returns a configuration with the object's name as its only key, whose
  fragment holds \<open>percentage\<close> and agrees, entry by entry, with the fragment the object
  was constructed from, except that for \<open>resize\<close>, \<open>normalize\<close> and \<open>to_pytorch\<close> the
  percentage returned is 100 whatever was configured; and constructing from the returned
  configuration gives the same object again.
\<close>

theorem get_config_roundtrip:
  assumes k: "augmentations_dict key = Some ctor" and a: "ctor cfg = Inr a"
  shows "\<exists>frag ret. cfg key = Some frag \<and> get_config a = [key \<mapsto> ret]
           \<and> ''percentage'' \<in> dom ret
           \<and> ret \<subseteq>\<^sub>m (if key \<in> {''resize'', ''normalize'', ''to_pytorch''}
                        then frag(''percentage'' \<mapsto> PInt 100) else frag)
           \<and> ctor (get_config a) = Inr a"
  using k
proof (cases rule: registry_cases)
  case HorizontalFlip
  from a have "HorizontalFlip_init cfg = Inr a" unfolding HorizontalFlip(2) .
  then show ?thesis
    unfolding HorizontalFlip by (intro roundtrip_combine HorizontalFlip_init_roundtrip)
next
  case VerticalFlip
  from a have "VerticalFlip_init cfg = Inr a" unfolding VerticalFlip(2) .
  then show ?thesis
    unfolding VerticalFlip by (intro roundtrip_combine VerticalFlip_init_roundtrip)
next
  case GaussNoise
  from a have "GaussNoise_init cfg = Inr a" unfolding GaussNoise(2) .
  then show ?thesis
    unfolding GaussNoise by (intro roundtrip_combine GaussNoise_init_roundtrip)
next
  case SNPNoise
  from a have "SNPNoise_init cfg = Inr a" unfolding SNPNoise(2) .
  then show ?thesis
    unfolding SNPNoise by (intro roundtrip_combine SNPNoise_init_roundtrip)
next
  case Blur
  from a have "Blur_init cfg = Inr a" unfolding Blur(2) .
  then show ?thesis
    unfolding Blur by (intro roundtrip_combine Blur_init_roundtrip)
next
  case Resize
  from a have "Resize_init cfg = Inr a" unfolding Resize(2) .
  then show ?thesis
    unfolding Resize by (intro roundtrip_combine Resize_init_roundtrip)
next
  case CentralCrop
  from a have "CentralCrop_init cfg = Inr a" unfolding CentralCrop(2) .
  then show ?thesis
    unfolding CentralCrop by (intro roundtrip_combine CentralCrop_init_roundtrip)
next
  case RandomCrop
  from a have "RandomCrop_init cfg = Inr a" unfolding RandomCrop(2) .
  then show ?thesis
    unfolding RandomCrop by (intro roundtrip_combine RandomCrop_init_roundtrip)
next
  case RandomRotate
  from a have "RandomRotate_init cfg = Inr a" unfolding RandomRotate(2) .
  then show ?thesis
    unfolding RandomRotate by (intro roundtrip_combine RandomRotate_init_roundtrip)
next
  case ToPyTorch
  from a have "ToPyTorch_init cfg = Inr a" unfolding ToPyTorch(2) .
  then show ?thesis
    unfolding ToPyTorch by (intro roundtrip_combine ToPyTorch_init_roundtrip)
next
  case Normalize
  from a have "Normalize_init cfg = Inr a" unfolding Normalize(2) .
  then show ?thesis
    unfolding Normalize by (intro roundtrip_combine Normalize_init_roundtrip)
next
  case RandomBrightness
  from a have "RandomBrightness_init cfg = Inr a" unfolding RandomBrightness(2) .
  then show ?thesis
    unfolding RandomBrightness by (intro roundtrip_combine RandomBrightness_init_roundtrip)
next
  case RandomContrast
  from a have "RandomContrast_init cfg = Inr a" unfolding RandomContrast(2) .
  then show ?thesis
    unfolding RandomContrast by (intro roundtrip_combine RandomContrast_init_roundtrip)
qed

text \<open>
  Claim C7 as stated fails: a \<open>resize\<close> constructed with percentage 50 returns a
  configuration with percentage 100.
\<close>

theorem resize_config_not_returned:
  "augmentations_dict ''resize'' = Some Resize_init
   \<and> Resize_init ex_cfg_resize = Inr ex_resize
   \<and> get_config ex_resize = [''resize'' \<mapsto> [''percentage'' \<mapsto> PInt 100, ''size'' \<mapsto> PInt 64]]
   \<and> get_config ex_resize \<noteq> ex_cfg_resize"
proof -
  have r: "augmentations_dict ''resize'' = Some Resize_init"
    by (simp add: augmentations_dict_def)
  have i: "Resize_init ex_cfg_resize = Inr ex_resize"
    by (simp add: Resize_init_def init_defs is_pair_def)
  have g: "get_config ex_resize = [''resize'' \<mapsto> [''percentage'' \<mapsto> PInt 100, ''size'' \<mapsto> PInt 64]]"
    by (simp add: config_defs)
  have "[''percentage'' \<mapsto> PInt 100, ''size'' \<mapsto> PInt 64] ''percentage''
      \<noteq> [''percentage'' \<mapsto> PInt 50, ''size'' \<mapsto> PInt 64] ''percentage''"
    by simp
  then have "[''percentage'' \<mapsto> PInt 100, ''size'' \<mapsto> PInt 64]
      \<noteq> [''percentage'' \<mapsto> PInt 50, ''size'' \<mapsto> PInt (64::int)]"
    by metis
  then have n: "get_config ex_resize \<noteq> ex_cfg_resize"
    unfolding g by (metis fun_upd_same option.inject)
  from r i g n show ?thesis by blast
qed

theorem get_config_roundtrip_witness:
  "augmentations_dict ''blur'' = Some Blur_init
   \<and> Blur_init ex_cfg_blur = Inr ex_blur
   \<and> (\<exists>frag ret. ex_cfg_blur ''blur'' = Some frag \<and> get_config ex_blur = [''blur'' \<mapsto> ret]
           \<and> ''percentage'' \<in> dom ret
           \<and> ret \<subseteq>\<^sub>m (if ''blur'' \<in> {''resize'', ''normalize'', ''to_pytorch''}
                        then frag(''percentage'' \<mapsto> PInt 100) else frag)
           \<and> Blur_init (get_config ex_blur) = Inr ex_blur)"
proof -
  have r: "augmentations_dict ''blur'' = Some Blur_init"
    by (simp add: augmentations_dict_def)
  have i: "Blur_init ex_cfg_blur = Inr ex_blur"
    by (simp add: Blur_init_def init_defs)
  from r i get_config_roundtrip [OF r i] show ?thesis by (intro conjI)
qed

section \<open>Properties of the random crop\<close>

lemma randint_value:
  assumes "a \<le> b"
  shows "randint a b g = Inr (a + int (shd g mod nat (b - a + 1)), stl g)"
    and "a \<le> a + int (shd g mod nat (b - a + 1))"
    and "a + int (shd g mod nat (b - a + 1)) \<le> b"
proof -
  from assms have n: "0 < nat (b - a + 1)" by simp
  have "int (shd g mod nat (b - a + 1)) < int (nat (b - a + 1))"
    using n by (simp only: of_nat_less_iff mod_less_divisor)
  with assms show "a + int (shd g mod nat (b - a + 1)) \<le> b" by simp
  from assms show "randint a b g = Inr (a + int (shd g mod nat (b - a + 1)), stl g)"
    by (simp add: randint_def)
  show "a \<le> a + int (shd g mod nat (b - a + 1))" by simp
qed

lemma randint_onto:
  assumes "a \<le> v" "v \<le> b"
  shows "randint a b (nat (v - a) ## g) = Inr (v, g)"
  using assms by (simp add: randint_def)

lemma slice_bound_0: "slice_bound n 0 = 0"
  by (simp add: slice_bound_def)

lemma slice_bound_ge: "int n \<le> i \<Longrightarrow> slice_bound n i = n"
  by (simp add: slice_bound_def)

lemma crop_axis:
  obtains d g1 where
    "(if int n > m then randint 0 (int n - m) g else Inr (0, g)) = Inr (d, g1)"
    "if int n \<le> m then d = 0 \<and> g1 = g
     else 0 \<le> d \<and> d + m \<le> int n \<and> d = int (shd g mod nat (int n - m + 1)) \<and> g1 = stl g"
proof (cases "int n > m")
  case True
  then have "0 \<le> int n - m" by simp
  from randint_value [OF this, of g] True
    that [of "int (shd g mod nat (int n - m + 1))" "stl g"]
  show ?thesis by simp
next
  case False
  with that [of 0 g] show ?thesis by simp
qed

text \<open>
  Claim C8. On an image of shape \<open>[h, w, c]\<close> and with integer width and height,
  \<open>RandomCrop.process\<close> returns normally. On an axis where the requested size is at
  least the image dimension nothing is drawn, the offset is 0 and the window is the whole
  axis. Where it is smaller, the offset is the residue of the generator's next raw output
  modulo the number of valid offsets, so it lies between 0 and the dimension minus the
  size, each value for exactly one residue.
\<close>

theorem RandomCrop_process_offsets:
  assumes s: "shape data = [h, w, c]"
  shows "\<exists>out dx dy g1 g2.
           RandomCrop_process (PInt width) (PInt height) data g = Inr (out, g2)
         \<and> RandomCrop_offsets width height h w g = Inr ((dx, dy), g2)
         \<and> out = slice_hw data dy (dy + height) dx (dx + width)
         \<and> (if int w \<le> width
             then dx = 0 \<and> g1 = g \<and> shape out ! 1 = w
                  \<and> (\<forall>i j k. elems out [i, j, k] = elems data [slice_bound h dy + i, j, k])
             else 0 \<le> dx \<and> dx + width \<le> int w
                  \<and> dx = int (shd g mod nat (int w - width + 1)) \<and> g1 = stl g)
         \<and> (if int h \<le> height
             then dy = 0 \<and> g2 = g1 \<and> shape out ! 0 = h
                  \<and> (\<forall>i j k. elems out [i, j, k] = elems data [i, slice_bound w dx + j, k])
             else 0 \<le> dy \<and> dy + height \<le> int h
                  \<and> dy = int (shd g1 mod nat (int h - height + 1)) \<and> g2 = stl g1)"
proof -
  obtain dx g1 where x: "(if int w > width then randint 0 (int w - width) g else Inr (0, g)) = Inr (dx, g1)"
    and dx: "if int w \<le> width then dx = 0 \<and> g1 = g
       else 0 \<le> dx \<and> dx + width \<le> int w \<and> dx = int (shd g mod nat (int w - width + 1)) \<and> g1 = stl g"
    by (rule crop_axis)
  obtain dy g2 where y: "(if int h > height then randint 0 (int h - height) g1 else Inr (0, g1)) = Inr (dy, g2)"
    and dy: "if int h \<le> height then dy = 0 \<and> g2 = g1
       else 0 \<le> dy \<and> dy + height \<le> int h \<and> dy = int (shd g1 mod nat (int h - height + 1)) \<and> g2 = stl g1"
    by (rule crop_axis)
  let ?out = "slice_hw data dy (dy + height) dx (dx + width)"
  have o: "RandomCrop_offsets width height h w g = Inr ((dx, dy), g2)"
    by (simp add: RandomCrop_offsets_def bind_err_def x y)
  have p: "RandomCrop_process (PInt width) (PInt height) data g = Inr (?out, g2)"
    by (simp add: RandomCrop_process_def s o bind_err_def Let_def)
  have cx: "if int w \<le> width
             then dx = 0 \<and> g1 = g \<and> shape ?out ! 1 = w
                  \<and> (\<forall>i j k. elems ?out [i, j, k] = elems data [slice_bound h dy + i, j, k])
             else 0 \<le> dx \<and> dx + width \<le> int w
                  \<and> dx = int (shd g mod nat (int w - width + 1)) \<and> g1 = stl g"
    using dx by (cases "int w \<le> width") (simp_all add: slice_hw_def s Let_def slice_bound_0 slice_bound_ge)
  have cy: "if int h \<le> height
             then dy = 0 \<and> g2 = g1 \<and> shape ?out ! 0 = h
                  \<and> (\<forall>i j k. elems ?out [i, j, k] = elems data [i, slice_bound w dx + j, k])
             else 0 \<le> dy \<and> dy + height \<le> int h
                  \<and> dy = int (shd g1 mod nat (int h - height + 1)) \<and> g2 = stl g1"
    using dy by (cases "int h \<le> height") (simp_all add: slice_hw_def s Let_def slice_bound_0 slice_bound_ge)
  from p o cx cy show ?thesis by blast
qed

theorem RandomCrop_process_offsets_witness:
  "shape ex_img = [2, 5, 3]
   \<and> (\<exists>out dx dy g1 g2.
           RandomCrop_process (PInt 3) (PInt 4) ex_img (sconst 7) = Inr (out, g2)
         \<and> RandomCrop_offsets 3 4 2 5 (sconst 7) = Inr ((dx, dy), g2)
         \<and> out = slice_hw ex_img dy (dy + 4) dx (dx + 3)
         \<and> (if int 5 \<le> 3
             then dx = 0 \<and> g1 = sconst 7 \<and> shape out ! 1 = 5
                  \<and> (\<forall>i j k. elems out [i, j, k] = elems ex_img [slice_bound 2 dy + i, j, k])
             else 0 \<le> dx \<and> dx + 3 \<le> int 5
                  \<and> dx = int (shd (sconst 7) mod nat (int 5 - 3 + 1)) \<and> g1 = stl (sconst 7))
         \<and> (if int 2 \<le> 4
             then dy = 0 \<and> g2 = g1 \<and> shape out ! 0 = 2
                  \<and> (\<forall>i j k. elems out [i, j, k] = elems ex_img [i, slice_bound 5 dx + j, k])
             else 0 \<le> dy \<and> dy + 4 \<le> int 2
                  \<and> dy = int (shd g1 mod nat (int 2 - 4 + 1)) \<and> g2 = stl g1))"
proof -
  have s: "shape ex_img = [2, 5, 3]" by simp
  from s RandomCrop_process_offsets [OF s, of 3 4 "sconst 7"] show ?thesis by (intro conjI)
qed

lemma RandomCrop_example:
  "RandomCrop_offsets 3 4 2 5 (sconst 7) = Inr ((1, 0), sconst 7)"
  by (simp add: RandomCrop_offsets_def bind_err_def randint_def)

section \<open>Properties of the salt and pepper noise\<close>

lemma np_random_randint_range:
  assumes "np_random_randint 0 (int i - 1) n g = Inr (c, g')"
  shows "drawn_below n i c"
proof (cases "n = 0")
  case True
  with assms show ?thesis by (simp add: np_random_randint_def drawn_below_def)
next
  case False
  with assms have h: "0 < int i - 1"
    and c: "c = map (\<lambda>u. 0 + int (u mod nat (int i - 1))) (stake (nat n) g)"
    by (auto simp: np_random_randint_def split: if_splits)
  have "int (u mod nat (int i - 1)) < int i - 1" for u
  proof -
    from h have "0 < nat (int i - 1)" by simp
    then have "u mod nat (int i - 1) < nat (int i - 1)" by (rule mod_less_divisor)
    with h show ?thesis by linarith
  qed
  with c show ?thesis by (auto simp: drawn_below_def)
qed

lemma draw_coords_range:
  assumes "draw_coords shp n g = Inr (coords, g')"
  shows "list_all2 (drawn_below n) shp coords"
  using assms
proof (induction shp arbitrary: g coords)
  case Nil
  then show ?case by simp
next
  case (Cons i shp)
  from Cons.prems obtain c g1 cs where
    c: "np_random_randint 0 (int i - 1) n g = Inr (c, g1)"
    and cs: "draw_coords shp n g1 = Inr (cs, g')" and e: "coords = c # cs"
    by (auto simp: bind_err_def split: sum.splits prod.splits)
  from np_random_randint_range [OF c] Cons.IH [OF cs] e show ?case by simp
qed

lemma transpose_drawn:
  assumes a: "list_all2 (drawn_below n) shp coords" and p: "p \<in> set (transpose coords)"
    and k: "k < length shp"
  shows "length p = length shp \<and> p ! k \<in> set (coords ! k)"
proof -
  from a have l: "length coords = length shp" by (simp add: list_all2_lengthD)
  from a have len: "\<forall>j<length coords. length (coords ! j) = nat n"
    by (auto simp: list_all2_conv_all_nth drawn_below_def)
  from k l have ne: "coords \<noteq> []" by auto
  have t: "transpose coords = map (\<lambda>i. map (\<lambda>j. coords ! j ! i) [0..<length coords]) [0..<nat n]"
    using ne len by (intro transpose_rectangle) auto
  from p obtain i where i: "i < nat n" and pe: "p = map (\<lambda>j. coords ! j ! i) [0..<length coords]"
    unfolding t by auto
  from k l len i have "coords ! k ! i \<in> set (coords ! k)" by simp
  with pe k l show ?thesis by simp
qed

lemma setitem_last_index:
  assumes s: "setitem Per_axis a coords v = Inr a'"
    and r: "list_all2 (drawn_below n) (shape a) coords"
    and k: "k < length (shape a)" and i: "idx ! k = shape a ! k - 1"
  shows "elems a' idx = elems a idx \<and> shape a' = shape a"
proof -
  from s have a': "a' = a\<lparr>elems := (\<lambda>idx.
                 if idx \<in> set (map (map2 norm_index (shape a)) (transpose coords)) then v
                 else elems a idx)\<rparr>"
    by (auto simp: setitem_def Let_def split: if_splits)
  have "idx \<notin> set (map (map2 norm_index (shape a)) (transpose coords))"
  proof
    assume "idx \<in> set (map (map2 norm_index (shape a)) (transpose coords))"
    then obtain p where p: "p \<in> set (transpose coords)" and e: "idx = map2 norm_index (shape a) p"
      by auto
    from transpose_drawn [OF r p k] have lp: "length p = length (shape a)"
      and m: "p ! k \<in> set (coords ! k)" by simp_all
    from r k have "drawn_below n (shape a ! k) (coords ! k)"
      by (simp add: list_all2_conv_all_nth)
    with m have b: "0 \<le> p ! k" "p ! k < int (shape a ! k) - 1"
      by (auto simp: drawn_below_def)
    from e k lp have "idx ! k = norm_index (shape a ! k) (p ! k)" by simp
    with b have "int (idx ! k) = p ! k" by (simp add: norm_index_def)
    with b i show False by linarith
  qed
  with a' show ?thesis by simp
qed

text \<open>
  Claim C10, amended. When \<open>SNPNoise.process\<close> returns, the salt and the pepper
  coordinates on an axis of length \<open>i\<close> were all drawn at least 0 and below \<open>i - 1\<close>, so
  the last index of an axis is never drawn. Where numpy
  reads the list of index arrays as one array per axis (\<open>Per_axis\<close>, before release 1.23)
  every element whose index on some axis is the last one of that axis then has the value
  it had in the input, and the shape is unchanged: neither salt nor pepper reaches the
  last index.
\<close>

theorem SNPNoise_last_index_untouched:
  assumes p: "SNPNoise_process Per_axis s_vs_p amount data g = Inr (out, g')"
    and k: "k < length (shape data)" and i: "idx ! k = shape data ! k - 1"
  shows "(\<exists>coords g1 coords' g2.
            draw_coords (shape data) \<lceil>amount * of_nat (ndarray_size data) * s_vs_p\<rceil> g =
              Inr (coords, g1)
          \<and> list_all2 (drawn_below \<lceil>amount * of_nat (ndarray_size data) * s_vs_p\<rceil>)
                (shape data) coords
          \<and> draw_coords (shape data) \<lceil>amount * of_nat (ndarray_size data) * (1 - s_vs_p)\<rceil> g1 =
              Inr (coords', g2)
          \<and> list_all2 (drawn_below \<lceil>amount * of_nat (ndarray_size data) * (1 - s_vs_p)\<rceil>)
                (shape data) coords')
       \<and> elems out idx = elems data idx \<and> shape out = shape data"
proof -
  let ?ns = "\<lceil>amount * of_nat (ndarray_size data) * s_vs_p\<rceil>"
  let ?np = "\<lceil>amount * of_nat (ndarray_size data) * (1 - s_vs_p)\<rceil>"
  from p obtain coords g1 out1 coords' g2 where
    c1: "draw_coords (shape data) ?ns g = Inr (coords, g1)"
    and s1: "setitem Per_axis data coords 255 = Inr out1"
    and c2: "draw_coords (shape data) ?np g1 = Inr (coords', g2)"
    and s2: "setitem Per_axis out1 coords' 0 = Inr out"
    by (auto simp: SNPNoise_process_def Let_def bind_err_def split: sum.splits prod.splits)
  from setitem_last_index [OF s1 draw_coords_range [OF c1] k i]
  have o1: "elems out1 idx = elems data idx" "shape out1 = shape data" by simp_all
  from c2 o1 have r2: "list_all2 (drawn_below ?np) (shape out1) coords'"
    by (simp add: draw_coords_range)
  from k i o1 have k': "k < length (shape out1)" and i': "idx ! k = shape out1 ! k - 1" by simp_all
  from setitem_last_index [OF s2 r2 k' i'] o1
  have u: "elems out idx = elems data idx" "shape out = shape data" by simp_all
  from c1 c2 draw_coords_range [OF c1] draw_coords_range [OF c2] u
  show ?thesis by blast
qed

lemma ex_noise_draws:
  "draw_coords [3, 3, 3] 1 ([1, 1, 1] @- sconst 0) = Inr ([[1], [1], [1]], sconst 0)"
  "draw_coords [3, 3, 3] 1 (sconst 0) = Inr ([[0], [0], [0]], sconst 0)"
  by (simp_all add: np_random_randint_def bind_err_def)

lemma ex_noise_counts:
  "\<lceil>(2 / 27 :: rat) * of_nat (ndarray_size ex_noise_img) * (1 / 2)\<rceil> = 1"
  "\<lceil>(2 / 27 :: rat) * of_nat (ndarray_size ex_noise_img) * (1 - 1 / 2)\<rceil> = 1"
  by (simp_all add: ndarray_size_def)

lemma ex_noise_run:
  "SNPNoise_process Per_axis (1 / 2) (2 / 27) ex_noise_img ([1, 1, 1] @- sconst 0) =
     Inr (ex_noise_out, sconst 0)"
proof -
  have t1: "transpose [[1], [1], [1 :: int]] = [[1, 1, 1]]"
    and t2: "transpose [[0], [0], [0 :: int]] = [[0, 0, 0]]"
    by simp_all
  have s1: "setitem Per_axis ex_noise_img [[1], [1], [1]] 255 =
      Inr \<lparr>shape = [3, 3, 3], elems = (\<lambda>idx. if idx = [1, 1, 1] then 255 else 7)\<rparr>"
    by (simp add: setitem_def t1 index_ok_def norm_index_def cong: if_cong)
  have s2: "setitem Per_axis
      \<lparr>shape = [3, 3, 3], elems = (\<lambda>idx. if idx = [1, 1, 1] then 255 else (7 :: 8 word))\<rparr>
      [[0], [0], [0]] 0 = Inr ex_noise_out"
    by (simp add: setitem_def t2 index_ok_def norm_index_def cong: if_cong)
  have sh: "shape ex_noise_img = [3, 3, 3]" by simp
  show ?thesis
    by (simp only: SNPNoise_process_def Let_def ex_noise_counts sh ex_noise_draws s1 s2
          bind_err_def sum.case prod.case)
qed

lemma ex_noise_run_first_axis:
  "SNPNoise_process First_axis (1 / 2) (2 / 27) ex_noise_img ([1, 1, 1] @- sconst 0) =
     Inr (ex_noise_planes, sconst 0)"
proof -
  have s1: "setitem First_axis ex_noise_img [[1], [1], [1]] 255 =
      Inr \<lparr>shape = [3, 3, 3],
           elems = (\<lambda>idx. if idx \<noteq> [] \<and> hd idx = 1 then 255 else 7)\<rparr>"
    by (simp add: setitem_def index_ok_def norm_index_def cong: if_cong)
  have s2: "setitem First_axis
      \<lparr>shape = [3, 3, 3],
        elems = (\<lambda>idx. if idx \<noteq> [] \<and> hd idx = 1 then 255 else (7 :: 8 word))\<rparr>
      [[0], [0], [0]] 0 = Inr ex_noise_planes"
    by (simp add: setitem_def index_ok_def norm_index_def cong: if_cong)
  have sh: "shape ex_noise_img = [3, 3, 3]" by simp
  show ?thesis
    by (simp only: SNPNoise_process_def Let_def ex_noise_counts sh ex_noise_draws s1 s2
          bind_err_def sum.case prod.case)
qed

text \<open>
  Claim C10 as stated fails: where numpy reads the list of index arrays as one index
  array on the first axis (\<open>First_axis\<close>, from release 1.23 on), the salt drawn at 1 and
  the pepper drawn at 0 fill the planes 1 and 0, and the element at \<open>[1, 1, 2]\<close>, whose
  last index is the last channel, is set to 255.
\<close>

theorem SNPNoise_sets_last_channel:
  "SNPNoise_process First_axis (1 / 2) (2 / 27) ex_noise_img ([1, 1, 1] @- sconst 0) =
     Inr (ex_noise_planes, sconst 0)
   \<and> [1, 1, 2] ! 2 = shape ex_noise_img ! 2 - 1
   \<and> elems ex_noise_img [1, 1, 2] = 7
   \<and> elems ex_noise_planes [1, 1, 2] = 255"
  using ex_noise_run_first_axis by simp

theorem SNPNoise_last_index_untouched_witness:
  "SNPNoise_process Per_axis (1 / 2) (2 / 27) ex_noise_img ([1, 1, 1] @- sconst 0) =
     Inr (ex_noise_out, sconst 0)
   \<and> 2 < length (shape ex_noise_img)
   \<and> [1, 1, 2] ! 2 = shape ex_noise_img ! 2 - 1
   \<and> ((\<exists>coords g1 coords' g2.
            draw_coords (shape ex_noise_img)
              \<lceil>(2 / 27 :: rat) * of_nat (ndarray_size ex_noise_img) * (1 / 2)\<rceil>
              ([1, 1, 1] @- sconst 0) = Inr (coords, g1)
          \<and> list_all2 (drawn_below \<lceil>(2 / 27 :: rat) * of_nat (ndarray_size ex_noise_img) * (1 / 2)\<rceil>)
                (shape ex_noise_img) coords
          \<and> draw_coords (shape ex_noise_img)
              \<lceil>(2 / 27 :: rat) * of_nat (ndarray_size ex_noise_img) * (1 - 1 / 2)\<rceil> g1 =
              Inr (coords', g2)
          \<and> list_all2 (drawn_below \<lceil>(2 / 27 :: rat) * of_nat (ndarray_size ex_noise_img) * (1 - 1 / 2)\<rceil>)
                (shape ex_noise_img) coords')
       \<and> elems ex_noise_out [1, 1, 2] = elems ex_noise_img [1, 1, 2]
       \<and> shape ex_noise_out = shape ex_noise_img)"
proof -
  have k: "2 < length (shape ex_noise_img)" by simp
  have i: "[1, 1, 2] ! 2 = shape ex_noise_img ! 2 - 1" by simp
  from ex_noise_run k i SNPNoise_last_index_untouched [OF ex_noise_run k i]
  show ?thesis by blast
qed

end
